theory Spec2Isabelle
  imports Complex_Main "HOL-Library.AList" "HOL-Library.Extended_Nat" "HOL-Library.Char_ord" "HOL-Library.List_Lexorder"
begin

section \<open>JavaScript values\<close>

text \<open>
  The parser is written in TypeScript.  Property values that the AST classes store are
  strings, numbers, booleans, \<open>null\<close>, arrays and plain objects; \<open>json\<close> is the type of
  these values.  Numbers are modelled by rationals: every precedence of the token
  catalogue (\<open>.25\<close>, \<open>.75\<close>, \<open>3.5\<close>, \<open>1000\<close>, ...) and every value the number pattern
  \<open>[0-9]+(?:\.[0-9]*)?|\.[0-9]+\<close> can produce is one, and on them \<open><\<close>, \<open>===\<close> and unary
  minus agree with the rationals.
\<close>

datatype json =
    JUndefined
  | JNull
  | JBool bool
  | JNum rat
  | JStr string
  | JArr "json list"
  | JObj "(string \<times> json) list"

text \<open>\<open>Array.prototype.join\<close> on an array of strings.\<close>

fun join :: "string \<Rightarrow> string list \<Rightarrow> string" where
  "join sep [] = []"
| "join sep [x] = x"
| "join sep (x # y # ys) = x @ sep @ join sep (y # ys)"

text \<open>
  \<open>String(n)\<close> for a number: the decimal digits of the integer part and, for a number with
  a fractional part, the digits of its decimal expansion (at most 20 of them; every
  decimal literal of up to 20 fractional digits is printed exactly).  The engine prints
  the shortest decimal that reads back as the same double, and uses the exponent form
  for numbers below \<open>1e-6\<close> and from \<open>1e21\<close>; the model prints them plain.
\<close>

definition digit :: "nat \<Rightarrow> char" where
  "digit d = char_of (48 + d)"

fun nat_digits :: "nat \<Rightarrow> string" where
  "nat_digits n = (if n < 10 then [digit n] else nat_digits (n div 10) @ [digit (n mod 10)])"

declare nat_digits.simps [simp del]

fun frac_digits :: "nat \<Rightarrow> rat \<Rightarrow> string" where
  "frac_digits 0 r = []"
| "frac_digits (Suc n) r =
     (if r = 0 then []
      else (let d = \<lfloor>10 * r\<rfloor> in digit (nat d) # frac_digits n (10 * r - of_int d)))"

definition String_num :: "rat \<Rightarrow> string" where
  "String_num r =
     (let a = \<bar>r\<bar>; i = \<lfloor>a\<rfloor>; f = a - of_int i
      in (if r < 0 then ''-'' else '''') @ nat_digits (nat i) @
         (if f = 0 then '''' else ''.'' @ frac_digits 20 f))"

section \<open>The AST node model (ast/Node.ts, ast/Op.ts, ast/Rel.ts, ast/Group.ts, ast/Func.ts)\<close>

text \<open>
  The static \<open>kind\<close> of each AST class.  \<open>KAstNode\<close> is the class \<open>AstNode\<close> itself, which the
  parser registers under the name \<open>base\<close>.
\<close>

datatype akind =
    KAstNode | KName | KNum | KFuncName | KOp | KBop | KUop | KRel | KMultiRel
  | KStackGroup | KGroup | KFuncApply | KFuncExp | KVector | KSet

text \<open>The \<open>value\<close> of a node is \<open>string | number\<close>.\<close>

datatype avalue = VStr string | VNum rat

text \<open>
  A node is an object of one class (\<open>kind\<close>) with its own properties: \<open>value\<close>,
  \<open>childNodes\<close>, the sub-node \<open>exp\<close> of a function expression, and every other own
  property (\<open>precedence\<close>, \<open>opString\<close>, \<open>relations\<close>, \<open>open\<close>, ...) in \<open>props\<close>, in
  the order in which they were assigned.  A property that is not an own property is
  read from the prototype of the class (\<open>proto\<close>).
\<close>

datatype ast =
  Ast (kind: akind) (nvalue: avalue) (childNodes: "ast list") (fexp: "ast option")
      (props: "(string \<times> json) list")

text \<open>\<open>AstLeaf\<close> and its subclasses: \<open>childNodes\<close> is a getter that returns \<open>[]\<close>.\<close>

definition isLeaf :: "akind \<Rightarrow> bool" where
  "isLeaf k = (k = KName \<or> k = KNum \<or> k = KFuncName)"

text \<open>\<open>node instanceof Op\<close>: the classes \<open>Op\<close>, \<open>Bop\<close>, \<open>Uop\<close>, \<open>Rel\<close>, \<open>MultiRel\<close>.\<close>

definition isOp :: "akind \<Rightarrow> bool" where
  "isOp k = (k = KOp \<or> k = KBop \<or> k = KUop \<or> k = KRel \<or> k = KMultiRel)"

text \<open>
  The prototype defaults (\<open>Op.defaults\<close>, \<open>Uop.defaults\<close>, \<open>MultiRel.defaults\<close>,
  \<open>FuncName.defaults\<close>, \<open>FuncApply.defaults\<close>, \<open>FuncExp.defaults\<close>), the nearest class
  first.
\<close>

definition Op_defaults :: "(string \<times> json) list" where
  "Op_defaults =
     [(''precedence'', JNum 0), (''associativity'', JStr ''left''), (''opString'', JNull),
      (''equalParens'', JBool False), (''isComma'', JBool False)]"

definition proto :: "akind \<Rightarrow> (string \<times> json) list" where
  "proto k =
     (case k of
        KOp \<Rightarrow> Op_defaults
      | KBop \<Rightarrow> Op_defaults
      | KRel \<Rightarrow> Op_defaults
      | KUop \<Rightarrow> (''equalParens'', JBool True) # Op_defaults
      | KMultiRel \<Rightarrow> (''opStrings'', JObj []) # Op_defaults
      | KFuncName \<Rightarrow> [(''inverse'', JStr '''')]
      | KFuncApply \<Rightarrow> [(''autoApply'', JBool False)]
      | KFuncExp \<Rightarrow> [(''precedence'', JNum (7 / 2)), (''autoApply'', JBool False)]
      | _ \<Rightarrow> [])"

text \<open>Reading a property: the own property if there is one, else the prototype's.\<close>

definition getProp :: "ast \<Rightarrow> string \<Rightarrow> json option" where
  "getProp node name =
     (case map_of (props node) name of
        Some v \<Rightarrow> Some v
      | None \<Rightarrow> map_of (proto (kind node)) name)"

text \<open>Assigning an own property (\<open>node.name = v\<close>): an existing one keeps its place.\<close>

definition setProp :: "string \<Rightarrow> json \<Rightarrow> ast \<Rightarrow> ast" where
  "setProp name v node =
     (case node of Ast k x cs e ps \<Rightarrow>
        Ast k x cs e (if name \<in> fst ` set ps then AList.update name v ps else ps @ [(name, v)]))"

text \<open>A property read as a condition; a missing property is \<open>undefined\<close>.\<close>

definition jsTruthy :: "json option \<Rightarrow> bool" where
  "jsTruthy p =
     (case p of
        Some (JBool b) \<Rightarrow> b
      | Some (JStr s) \<Rightarrow> s \<noteq> []
      | Some (JNum n) \<Rightarrow> n \<noteq> 0
      | Some (JArr xs) \<Rightarrow> True
      | Some (JObj m) \<Rightarrow> True
      | _ \<Rightarrow> False)"

text \<open>String conversion of a value in a concatenation, and truthiness of a value.\<close>

definition valueString :: "avalue \<Rightarrow> string" where
  "valueString v = (case v of VStr s \<Rightarrow> s | VNum n \<Rightarrow> String_num n)"

definition truthy :: "avalue \<Rightarrow> bool" where
  "truthy v = (case v of VStr s \<Rightarrow> s \<noteq> [] | VNum n \<Rightarrow> n \<noteq> 0)"

definition propString :: "json option \<Rightarrow> string" where
  "propString p =
     (case p of
        Some (JStr s) \<Rightarrow> s
      | Some (JNum n) \<Rightarrow> String_num n
      | Some (JBool b) \<Rightarrow> (if b then ''true'' else ''false'')
      | Some JNull \<Rightarrow> ''null''
      | _ \<Rightarrow> ''undefined'')"

text \<open>
  \<open>AstObject.addParens\<close> once the text of the node is known:
  \<^verbatim>\<open>
    if (!('precedence' in node)) return text;
    const prec = (node as any).precedence;
    return (prec < precedence || (equalParens && prec === precedence) ? '(' + text + ')' : text);
  \<close>
  Every precedence the parser stores is a number, but the comparison is the language's:
  \<open><\<close> compares two strings as strings and converts any other pair of operands to
  numbers (\<open>ToNumber\<close>: a number is itself, \<open>null\<close> is \<open>0\<close>, \<open>false\<close> and \<open>true\<close> are \<open>0\<close> and
  \<open>1\<close>, \<open>undefined\<close> is \<open>NaN\<close>, with which every comparison is false); \<open>===\<close> holds
  between two values of one type that are equal.  The conversion of a string to a number
  and of an array or an object to a string belongs to the engine and is not followed:
  \<open>numericValue\<close> tells the values whose conversion the model follows, and for the others
  it reads \<open>NaN\<close>; two arrays or two objects are taken to be different objects.
\<close>

definition numericValue :: "json \<Rightarrow> bool" where
  "numericValue v = (case v of JStr s \<Rightarrow> False | JArr xs \<Rightarrow> False | JObj m \<Rightarrow> False | _ \<Rightarrow> True)"

definition ToNumber :: "json \<Rightarrow> rat option" where
  "ToNumber v =
     (case v of
        JNum n \<Rightarrow> Some n
      | JNull \<Rightarrow> Some 0
      | JBool b \<Rightarrow> Some (if b then 1 else 0)
      | _ \<Rightarrow> None)"

definition lessThan_js :: "json \<Rightarrow> json \<Rightarrow> bool" where
  "lessThan_js a b =
     (case (a, b) of
        (JStr s, JStr t) \<Rightarrow> s < t
      | _ \<Rightarrow> (case (ToNumber a, ToNumber b) of (Some m, Some n) \<Rightarrow> m < n | _ \<Rightarrow> False))"

definition strictEquals :: "json \<Rightarrow> json \<Rightarrow> bool" where
  "strictEquals a b =
     (case (a, b) of
        (JArr xs, _) \<Rightarrow> False
      | (JObj m, _) \<Rightarrow> False
      | _ \<Rightarrow> a = b)"

definition needsParensAt :: "ast \<Rightarrow> json \<Rightarrow> bool \<Rightarrow> bool" where
  "needsParensAt node precedence equalParens =
     (case getProp node ''precedence'' of
        None \<Rightarrow> False
      | Some prec \<Rightarrow> lessThan_js prec precedence \<or> (equalParens \<and> strictEquals prec precedence))"

definition parensAt :: "ast \<Rightarrow> string \<Rightarrow> json \<Rightarrow> bool \<Rightarrow> string" where
  "parensAt node text precedence equalParens =
     (if needsParensAt node precedence equalParens then ''('' @ text @ '')'' else text)"

text \<open>The same with a number as the threshold, as the signature of \<open>addParens\<close> has it.\<close>

definition needsParens :: "ast \<Rightarrow> rat \<Rightarrow> bool \<Rightarrow> bool" where
  "needsParens node precedence equalParens = needsParensAt node (JNum precedence) equalParens"

definition parens :: "ast \<Rightarrow> string \<Rightarrow> rat \<Rightarrow> bool \<Rightarrow> string" where
  "parens node text precedence equalParens = parensAt node text (JNum precedence) equalParens"

text \<open>The defaults of \<open>Op.addParens\<close>: \<open>this.precedence\<close> (\<open>undefined\<close> when the node has
  none) and \<open>this.equalParens\<close>, read as a condition.\<close>

definition thisPrecedence :: "ast \<Rightarrow> json" where
  "thisPrecedence node = (case getProp node ''precedence'' of Some p \<Rightarrow> p | None \<Rightarrow> JUndefined)"

definition thisEqualParens :: "ast \<Rightarrow> bool" where
  "thisEqualParens node = jsTruthy (getProp node ''equalParens'')"

text \<open>\<open>Op.operatorString\<close> (used by \<open>Uop\<close>): \<open>opString || value || ''\<close>.\<close>

definition Op_operatorString :: "ast \<Rightarrow> string" where
  "Op_operatorString node =
     (case getProp node ''opString'' of
        Some (JStr s) \<Rightarrow> (if s \<noteq> [] then s else if truthy (nvalue node) then valueString (nvalue node) else '''')
      | _ \<Rightarrow> (if truthy (nvalue node) then valueString (nvalue node) else ''''))"

text \<open>\<open>Bop.operatorString\<close>: \<open>opString !== null ? opString : ' ' + value + ' '\<close>.\<close>

definition Bop_operatorString :: "ast \<Rightarrow> string" where
  "Bop_operatorString node =
     (case getProp node ''opString'' of
        Some JNull \<Rightarrow> '' '' @ valueString (nvalue node) @ '' ''
      | p \<Rightarrow> propString p)"

text \<open>\<open>MultiRel.getOp\<close> and the items that \<open>MultiRel.toString\<close> joins after the first child.\<close>

definition getOp :: "ast \<Rightarrow> string \<Rightarrow> string" where
  "getOp node name =
     (case getProp node ''opStrings'' of
        Some (JObj m) \<Rightarrow> (case map_of m name of Some v \<Rightarrow> propString (Some v) | None \<Rightarrow> name)
      | _ \<Rightarrow> name)"

fun relItems :: "(string \<Rightarrow> string) \<Rightarrow> json list \<Rightarrow> string list \<Rightarrow> string list" where
  "relItems f rs [] = []"
| "relItems f [] (s # ss) = '''' # s # relItems f [] ss"
| "relItems f (r # rs) (s # ss) =
     (case r of JStr n \<Rightarrow> f n | _ \<Rightarrow> propString (Some r)) # s # relItems f rs ss"

text \<open>
  \<open>toString\<close>, one branch per class that defines it.  \<open>None\<close> is the \<open>TypeError\<close> of calling
  \<open>toString\<close> on a missing node: the operand of a \<open>Uop\<close> without children, the first child
  of a \<open>MultiRel\<close> without children (or indexing its missing \<open>relations\<close>), the \<open>exp\<close> of a
  \<open>FuncExp\<close> without one.
\<close>

fun toString :: "ast \<Rightarrow> string option" where
  "toString (Ast k v cs e ps) =
     (let node = Ast k v cs e ps in
      if isLeaf k then Some (valueString v)
      else if k = KBop \<or> k = KRel then
        map_option (join (Bop_operatorString node))
          (those (map (\<lambda>c. map_option
               (\<lambda>t. parensAt c t (thisPrecedence node) (thisEqualParens node)) (toString c)) cs))
      else if k = KUop then
        (case cs of
           [] \<Rightarrow> None
         | c # _ \<Rightarrow>
             map_option
               (\<lambda>t. let op = Op_operatorString node;
                        arg = parensAt c t (thisPrecedence node) (thisEqualParens node)
                    in if getProp node ''associativity'' = Some (JStr ''left'')
                       then op @ arg else arg @ op)
               (toString c))
      else if k = KMultiRel then
        (case those (map toString cs) of
           None \<Rightarrow> None
         | Some [] \<Rightarrow> None
         | Some [s] \<Rightarrow> Some s
         | Some (s # ss) \<Rightarrow>
             (case getProp node ''relations'' of
                Some (JArr rs) \<Rightarrow> Some (join '' '' (s # relItems (getOp node) rs ss))
              | _ \<Rightarrow> None))
      else if k = KStackGroup \<or> k = KGroup \<or> k = KVector \<or> k = KSet then
        map_option
          (\<lambda>ss. propString (getProp node ''open'') @ join '', '' ss @ propString (getProp node ''close''))
          (those (map toString cs))
      else if k = KFuncApply then
        map_option (\<lambda>ss. valueString v @ ''('' @ join '', '' ss @ '')'') (those (map toString cs))
      else if k = KFuncExp then
        (case e of
           None \<Rightarrow> None
         | Some x \<Rightarrow>
             (case toString x of
                None \<Rightarrow> None
              | Some t \<Rightarrow>
                  map_option
                    (\<lambda>ss. parensAt x t (thisPrecedence node) False @ ''('' @ join '', '' ss @ '')'')
                    (those (map toString cs))))
      else
        map_option
          (\<lambda>ss. let children = join '','' ss
                in if truthy v
                   then valueString v @ (if children \<noteq> [] then ''('' @ children @ '')'' else '''')
                   else children)
          (those (map toString cs)))"

declare toString.simps [simp del]

text \<open>\<open>AstObject.addParens(node, precedence, equalParens = false)\<close>.\<close>

definition addParens :: "ast \<Rightarrow> rat \<Rightarrow> bool \<Rightarrow> string option" where
  "addParens node precedence equalParens =
     map_option (\<lambda>text. parens node text precedence equalParens) (toString node)"

text \<open>\<open>AstObject.append\<close>; a leaf pushes onto the fresh array its getter returns, so nothing
  is kept.  \<open>Group.append\<close> splices the children of a comma operator.

  Modelled from the spec: ast/Vector.ts and ast/Set.ts are not among the sources; the
  kinds \<open>KVector\<close> and \<open>KSet\<close> stand for grouping nodes that behave as \<open>Group\<close> does.\<close>

definition isGroupKind :: "akind \<Rightarrow> bool" where
  "isGroupKind k = (k = KGroup \<or> k = KVector \<or> k = KSet)"

definition AstObject_append :: "ast \<Rightarrow> ast \<Rightarrow> ast" where
  "AstObject_append node child =
     (case node of Ast k v cs e ps \<Rightarrow> if isLeaf k then node else Ast k v (cs @ [child]) e ps)"

definition ast_append :: "ast \<Rightarrow> ast \<Rightarrow> ast" where
  "ast_append node child =
     (if isGroupKind (kind node) \<and> isOp (kind child) \<and> jsTruthy (getProp child ''isComma'')
      then (case node of Ast k v cs e ps \<Rightarrow> Ast k v (cs @ childNodes child) e ps)
      else AstObject_append node child)"

subsection \<open>The AST registry and the constructors (Parser.createAst)\<close>

datatype error = Error string | TypeError | Undefined | Unmodelled | OutOfFuel

text \<open>
  \<open>Error m\<close> is \<open>throw new Error(m)\<close> (\<open>Parser.error\<close>, \<open>getBaseClass\<close>, \<open>getAstClass\<close>);
  \<open>TypeError\<close> is a property read or a call on \<open>undefined\<close>; \<open>Undefined\<close> is the result
  \<open>undefined\<close> of the tree of a start delimiter without children; \<open>Unmodelled\<close> marks a
  state this model does not follow; \<open>OutOfFuel\<close> is the model's recursion bound.
\<close>

text \<open>\<open>Parser.baseAst\<close>: the classes of ast/BaseObjects.ts under their names, and \<open>base\<close>.\<close>

definition baseAst :: "(string \<times> akind) list" where
  "baseAst =
     [(''Name'', KName), (''Num'', KNum), (''Op'', KOp), (''Bop'', KBop), (''Uop'', KUop),
      (''Rel'', KRel), (''MultiRel'', KMultiRel), (''Group'', KGroup),
      (''StackGroup'', KStackGroup), (''FuncName'', KFuncName), (''FuncApply'', KFuncApply),
      (''FuncExp'', KFuncExp), (''Vector'', KVector), (''Set'', KSet), (''base'', KAstNode)]"

definition getAstClass :: "(string \<times> akind) list \<Rightarrow> string \<Rightarrow> error + akind" where
  "getAstClass astMap type =
     (case map_of astMap type of
        Some k \<Rightarrow> Inr k
      | None \<Rightarrow> Inl (Error (''No definition for AST class: '' @ type)))"

text \<open>\<open>parseFloat\<close> on an unsigned decimal literal; \<open>None\<close> is \<open>NaN\<close>.  The value is the
  decimal itself, where the engine rounds it to the nearest double (so a literal too small
  for a double is not \<open>0\<close> here).\<close>

definition isDigit :: "char \<Rightarrow> bool" where
  "isDigit c = (48 \<le> (of_char c :: nat) \<and> (of_char c :: nat) \<le> 57)"

definition digitsVal :: "string \<Rightarrow> nat" where
  "digitsVal s = foldl (\<lambda>a c. 10 * a + (of_char c - 48)) 0 s"

definition parseFloat :: "string \<Rightarrow> rat option" where
  "parseFloat s =
     (let ip = takeWhile isDigit s;
          rest = dropWhile isDigit s;
          fp = (case rest of c # r \<Rightarrow> if c = CHR ''.'' then takeWhile isDigit r else [] | [] \<Rightarrow> [])
      in if ip = [] \<and> fp = [] then None
         else Some (of_nat (digitsVal ip) + of_nat (digitsVal fp) / 10 ^ length fp))"

text \<open>
  \<open>new CLASS(value)\<close> for the classes a token creates with its value alone:
  \<open>AstObject\<close> stores \<open>args[0] || ''\<close>; \<open>Num\<close> passes \<open>parseFloat(value)\<close> to it, so the
  number \<open>0\<close> (and \<open>NaN\<close>) is stored as the empty string; \<open>StackGroup(open, close)\<close> stores
  \<open>''\<close> as value, the value as \<open>open\<close> and \<open>undefined\<close> as \<open>close\<close>.
\<close>

definition newAst :: "akind \<Rightarrow> string \<Rightarrow> error + ast" where
  "newAst k v =
     (if k = KNum then
        Inr (Ast k (case parseFloat v of
                      Some n \<Rightarrow> if n \<noteq> 0 then VNum n else VStr ''''
                    | None \<Rightarrow> VStr '''') [] None [])
      else if k = KStackGroup \<or> isGroupKind k then
        Inr (Ast k (VStr '''') [] None [(''open'', JStr v), (''close'', JUndefined)])
      else if k = KMultiRel then Inl TypeError
      else if k = KFuncExp then Inl Unmodelled
      else Inr (Ast k (VStr v) [] None []))"

text \<open>\<open>new MultiRel(value, children, relations, opStrings)\<close>.\<close>

definition newMultiRel ::
  "string \<Rightarrow> ast list \<Rightarrow> string list \<Rightarrow> (string \<times> string) list \<Rightarrow> ast" where
  "newMultiRel v children relations opStrings =
     Ast KMultiRel (VStr v) children None
       ((''relations'', JArr (map JStr relations)) #
        (if opStrings \<noteq> [] then [(''opStrings'', JObj (map (\<lambda>(k, s). (k, JStr s)) opStrings))]
         else []))"

text \<open>\<open>new FuncExp(exp, args, autoApply, precedence)\<close>.\<close>

definition newFuncExp :: "ast option \<Rightarrow> ast list \<Rightarrow> bool \<Rightarrow> rat \<Rightarrow> ast" where
  "newFuncExp e args autoApply precedence =
     (let n0 = Ast KFuncExp (VStr '''') args e [];
          n1 = (if Some (JBool autoApply) \<noteq> getProp n0 ''autoApply''
                then setProp ''autoApply'' (JBool autoApply) n0 else n0)
      in if Some (JNum precedence) \<noteq> getProp n1 ''precedence''
         then setProp ''precedence'' (JNum precedence) n1 else n1)"

text \<open>\<open>Parser.isast\<close>: \<open>node instanceof\<close> the class registered under the name.\<close>

definition isast :: "akind \<Rightarrow> ast \<Rightarrow> bool" where
  "isast c node =
     (if c = KName then kind node = KName \<or> kind node = KFuncName
      else if c = KOp then isOp (kind node)
      else kind node = c)"

section \<open>Tokens (token/Token.ts and its subclasses)\<close>

text \<open>
  The token classes that carry behaviour.  A class made by \<open>define\<close> without a class
  argument is an anonymous subclass that only overrides prototype properties; its tokens
  have the class they were derived from, and the overridden properties in their record.
\<close>

datatype tclass =
    CToken | COperand | CApply | CTree | CGroup
  | COperator | CBinaryOp | CUnaryOp | CUnaryMinus | CPower | CRelation | CJuxtapose
  | CApplyOp | CApplyArgument | CApplyPending
  | CDelimiter | CStart | CEnd | CLookAhead | CAngle

text \<open>The class and its ancestors (\<open>extends\<close>), nearest first.\<close>

definition superclasses :: "tclass \<Rightarrow> tclass list" where
  "superclasses c =
     (case c of
        CToken \<Rightarrow> [CToken]
      | COperand \<Rightarrow> [COperand, CToken]
      | CApply \<Rightarrow> [CApply, COperand, CToken]
      | CTree \<Rightarrow> [CTree, COperand, CToken]
      | CGroup \<Rightarrow> [CGroup, CTree, COperand, CToken]
      | COperator \<Rightarrow> [COperator, CToken]
      | CBinaryOp \<Rightarrow> [CBinaryOp, COperator, CToken]
      | CUnaryOp \<Rightarrow> [CUnaryOp, COperator, CToken]
      | CUnaryMinus \<Rightarrow> [CUnaryMinus, CUnaryOp, COperator, CToken]
      | CPower \<Rightarrow> [CPower, CBinaryOp, COperator, CToken]
      | CRelation \<Rightarrow> [CRelation, CBinaryOp, COperator, CToken]
      | CJuxtapose \<Rightarrow> [CJuxtapose, CBinaryOp, COperator, CToken]
      | CApplyOp \<Rightarrow> [CApplyOp, COperator, CToken]
      | CApplyArgument \<Rightarrow> [CApplyArgument, CApplyOp, COperator, CToken]
      | CApplyPending \<Rightarrow> [CApplyPending, COperator, CToken]
      | CDelimiter \<Rightarrow> [CDelimiter, CToken]
      | CStart \<Rightarrow> [CStart, CDelimiter, CToken]
      | CEnd \<Rightarrow> [CEnd, CDelimiter, CToken]
      | CLookAhead \<Rightarrow> [CLookAhead, CToken]
      | CAngle \<Rightarrow> [CAngle, CLookAhead, CToken])"

text \<open>The function-application descriptor; \<open>args\<close> is a number or \<open>Infinity\<close>.\<close>

record ApplyData =
  args :: enat
  requireArgument :: bool
  autoApply :: bool

text \<open>
  The properties of a token, prototype and instance ones together.  Three classes use the
  property name \<open>close\<close> with three types: the closer strings of a \<open>Delimiter\<close>
  (\<open>close\<close>), the close string of a \<open>Group\<close> token (\<open>gclose\<close>, with \<open>gopen\<close>) and of a
  \<open>LookAhead\<close> (\<open>lclose\<close>).  \<open>optype\<close> is the property \<open>type\<close>, which \<open>Relation\<close>
  overwrites with the relation's symbol; \<open>relList\<close> is \<open>Relation.list\<close>; \<open>fargs\<close>,
  \<open>fautoApply\<close>, \<open>frequireArgument\<close> are the prototype properties \<open>args\<close>, \<open>autoApply\<close>,
  \<open>requireArgument\<close> of \<open>Apply\<close>; \<open>astClassFor\<close> holds the properties named
  \<open><type>AstClass\<close>; \<open>tkind\<close> and \<open>tvalue\<close> are \<open>kind\<close> and \<open>value\<close>.
\<close>

record tokenRec =
  cls :: tclass
  tkind :: string
  tvalue :: string
  ast :: ast
  astClass :: string
  astClassFor :: "(string \<times> string) list"
  applyData :: "ApplyData option"
  canApply :: bool
  token :: "string list"
  pattern :: "string option"
  priority :: rat
  normalize :: "(string \<times> string) list"
  normalizeTo :: "string option"
  associativity :: string
  precedence :: rat
  combine :: bool
  appliesLeft :: bool
  optype :: string
  isComma :: bool
  opString :: "string option"
  opStrings :: "(string \<times> string) list"
  equalParens :: bool
  negateNumbers :: bool
  combined :: "(string \<times> string) list"
  relList :: "string list"
  allowEmpty :: bool
  close :: "string list"
  removable :: bool
  removePrecedence :: rat
  isApply :: bool
  isClose :: "bool option"
  gopen :: string
  gclose :: string
  lclose :: string
  isOpen :: bool
  hasComma :: bool
  isClosed :: bool
  fargs :: enat
  fautoApply :: bool
  frequireArgument :: bool
  isInvertible :: bool
  pushed :: bool

text \<open>
  A token: its properties, the tokens a look-ahead has saved, and the classes named by
  \<open>unaryClass\<close>, \<open>operatorClass\<close> and \<open>delimiterClass\<close>.  A class is given by its
  prototype: a token that holds the prototype's properties and has not been constructed.
\<close>

datatype token =
  Token (trec: tokenRec) (saved: "token list") (unaryClass: "token option")
        (operatorClass: "token option") (delimiterClass: "token option")

definition upd :: "(tokenRec \<Rightarrow> tokenRec) \<Rightarrow> token \<Rightarrow> token" where
  "upd f t = (case t of Token r s u p d \<Rightarrow> Token (f r) s u p d)"

definition setSaved :: "token list \<Rightarrow> token \<Rightarrow> token" where
  "setSaved s t = (case t of Token r _ u p d \<Rightarrow> Token r s u p d)"

definition setUnaryClass :: "token \<Rightarrow> token \<Rightarrow> token" where
  "setUnaryClass c t = (case t of Token r s _ p d \<Rightarrow> Token r s (Some c) p d)"

definition setLookClasses :: "token \<Rightarrow> token \<Rightarrow> token \<Rightarrow> token" where
  "setLookClasses opc dlc t = (case t of Token r s u _ _ \<Rightarrow> Token r s u (Some opc) (Some dlc))"

text \<open>\<open>Parser.isa\<close>: \<open>token instanceof\<close> the class.\<close>

definition isa :: "tclass \<Rightarrow> token \<Rightarrow> bool" where
  "isa c t = (c \<in> set (superclasses (cls (trec t))))"

subsection \<open>The base classes and their defaults (Parser.baseTokens)\<close>

definition TokenBase :: tokenRec where
  "TokenBase =
     \<lparr> cls = CToken, tkind = ''token'', tvalue = '''', ast = Ast KAstNode (VStr '''') [] None [],
       astClass = ''base'', astClassFor = [], applyData = None, canApply = True,
       token = [], pattern = None, priority = 10, normalize = [], normalizeTo = None,
       associativity = '''', precedence = 0, combine = False, appliesLeft = False,
       optype = '''', isComma = False, opString = None, opStrings = [], equalParens = False,
       negateNumbers = False, combined = [], relList = [],
       allowEmpty = False, close = [], removable = False, removePrecedence = 0,
       isApply = False, isClose = None, gopen = '''', gclose = '''', lclose = '''',
       isOpen = False, hasComma = False, isClosed = False,
       fargs = 0, fautoApply = False, frequireArgument = False, isInvertible = False,
       pushed = False \<rparr>"

definition mk :: "tokenRec \<Rightarrow> token" where
  "mk r = Token r [] None None None"

definition Operand :: token where
  "Operand = mk (TokenBase\<lparr> cls := COperand, tkind := ''operand'', canApply := False,
                            astClass := ''Name'' \<rparr>)"

definition Tree :: token where
  "Tree = upd (\<lambda>r. r\<lparr> cls := CTree, tkind := ''tree'', canApply := True \<rparr>) Operand"

definition Group :: token where
  "Group = upd (\<lambda>r. r\<lparr> cls := CGroup, tkind := ''group'', gopen := '''', gclose := '''' \<rparr>) Tree"

definition Apply :: token where
  "Apply = upd (\<lambda>r. r\<lparr> cls := CApply, tkind := ''function'', astClass := ''FuncName'',
                        fargs := 1, fautoApply := False, frequireArgument := True,
                        isInvertible := False \<rparr>) Operand"

definition Operator :: token where
  "Operator = mk (TokenBase\<lparr> cls := COperator, tkind := ''operator'', associativity := ''left'',
                              precedence := 5, combine := False, appliesLeft := False,
                              optype := ''binary'', isComma := False, equalParens := False,
                              opString := None, opStrings := [] \<rparr>)"

definition BinaryOp :: token where
  "BinaryOp = upd (\<lambda>r. r\<lparr> cls := CBinaryOp, tkind := ''binary'', optype := ''binary'',
                           astClass := ''Bop'' \<rparr>) Operator"

definition UnaryOp :: token where
  "UnaryOp = upd (\<lambda>r. r\<lparr> cls := CUnaryOp, tkind := ''unary'', optype := ''unary'',
                          astClass := ''Uop'', equalParens := True \<rparr>) Operator"

definition Juxtapose :: token where
  "Juxtapose = upd (\<lambda>r. r\<lparr> cls := CJuxtapose, tkind := ''*'', precedence := 2, combine := True,
                            opString := Some '' '' \<rparr>) BinaryOp"

definition Relation :: token where
  "Relation = upd (\<lambda>r. r\<lparr> cls := CRelation, tkind := ''relation'', precedence := 3 / 4,
                           combine := True, combined := [], opStrings := [],
                           astClass := ''Rel'' \<rparr>) BinaryOp"

definition ApplyOp :: token where
  "ApplyOp = upd (\<lambda>r. r\<lparr> cls := CApplyOp, tkind := ''apply'', precedence := 7 / 2,
                          associativity := ''right'', astClass := ''FuncApply'' \<rparr>) Operator"

definition ApplyArgument :: token where
  "ApplyArgument = upd (\<lambda>r. r\<lparr> cls := CApplyArgument, tkind := ''apply'',
                                precedence := 1000 \<rparr>) ApplyOp"

definition ApplyPending :: token where
  "ApplyPending = upd (\<lambda>r. r\<lparr> cls := CApplyPending, tkind := ''apply-pending'',
                               precedence := 7 / 2, associativity := ''right'' \<rparr>) Operator"

definition Delimiter :: token where
  "Delimiter = mk (TokenBase\<lparr> cls := CDelimiter, tkind := ''delimiter'', allowEmpty := False,
                               close := [], astClass := ''Group'', removable := False,
                               removePrecedence := - 1, isApply := False \<rparr>)"

definition Start :: token where
  "Start = upd (\<lambda>r. r\<lparr> cls := CStart, tkind := ''_start_'', close := [''_end_''],
                        allowEmpty := True, astClass := ''StackGroup'' \<rparr>) Delimiter"

definition End :: token where
  "End = upd (\<lambda>r. r\<lparr> cls := CEnd, tkind := ''_end_'', isClose := Some True,
                      astClass := ''StackGroup'' \<rparr>) Delimiter"

definition LookAhead :: token where
  "LookAhead = mk (TokenBase\<lparr> cls := CLookAhead, tkind := ''look-ahead'', lclose := '''' \<rparr>)"

definition Angle :: token where
  "Angle =
     setLookClasses
       (upd (\<lambda>r. r\<lparr> tkind := ''<'' \<rparr>) Relation)
       (upd (\<lambda>r. r\<lparr> tkind := ''<'', close := [''>''],
                     astClassFor := [(''Group'', ''Vector'')] \<rparr>) Delimiter)
       (upd (\<lambda>r. r\<lparr> cls := CAngle, tkind := ''angle'', token := [''<'', ''>''] \<rparr>) LookAhead)"

subsection \<open>Function-application descriptors (Token.saveFunction, Token.checkFunction)\<close>

text \<open>
  \<open>checkFunction\<close> compares the descriptors key by key (\<open>autoApply\<close>, \<open>requireArgument\<close>,
  \<open>args\<close>); \<open>None\<close> is \<open>false\<close>, otherwise the receiver's descriptor, whose \<open>args\<close> takes
  the other's finite count when one of the two is \<open>Infinity\<close>.  Descriptors are passed by
  value here: the source shares one object between the tokens that copied it.
\<close>

definition checkFunction :: "ApplyData \<Rightarrow> ApplyData \<Rightarrow> ApplyData option" where
  "checkFunction thisData tokenData =
     (if autoApply thisData \<noteq> autoApply tokenData then None
      else if requireArgument thisData \<noteq> requireArgument tokenData then None
      else if args thisData \<noteq> args tokenData then
        (if args thisData = \<infinity> \<or> args tokenData = \<infinity>
         then Some (if args tokenData \<noteq> \<infinity> then thisData\<lparr> args := args tokenData \<rparr> else thisData)
         else None)
      else Some thisData)"

definition saveFunction :: "token \<Rightarrow> token \<Rightarrow> error + token" where
  "saveFunction this tok =
     (case applyData (trec tok) of
        Some tokenData \<Rightarrow>
          (if canApply (trec this) then
             (case applyData (trec this) of
                Some thisData \<Rightarrow>
                  (case checkFunction thisData tokenData of
                     None \<Rightarrow> Inl (Error (''Functions are not compatible types for '' @ tvalue (trec this)))
                   | Some d \<Rightarrow> Inr (upd (\<lambda>r. r\<lparr> applyData := Some d \<rparr>) this))
              | None \<Rightarrow> Inr (upd (\<lambda>r. r\<lparr> applyData := Some tokenData \<rparr>) this))
           else if \<not> canApply (trec tok)
             then Inr (upd (\<lambda>r. r\<lparr> canApply := False, applyData := None \<rparr>) this)
           else Inr this)
      | None \<Rightarrow>
          (if \<not> canApply (trec tok)
           then Inr (upd (\<lambda>r. r\<lparr> canApply := False, applyData := None \<rparr>) this)
           else Inr this))"

subsection \<open>Resolving a token to its AST (tree)\<close>

text \<open>
  \<open>UnaryMinus.tree\<close>:
  \<^verbatim>\<open>
    if (this.negateNumbers && this.ast.childNodes.length === 1 &&
        this.isast('Num', this.ast.childNodes[0])) {
      const num = this.ast.childNodes[0];
      if (num.value > 0) { num.value = -num.value; return num; }
    }
    return super.tree();
  \<close>
  The value of a \<open>Num\<close> node is a number or the empty string, which compares as \<open>0\<close>; any
  other string is outside the model.
\<close>

definition UnaryMinus_tree :: "token \<Rightarrow> error + ast" where
  "UnaryMinus_tree this =
     (case childNodes (ast (trec this)) of
        [num] \<Rightarrow>
          (if negateNumbers (trec this) \<and> isast KNum num then
             (case nvalue num of
                VNum n \<Rightarrow>
                  (if n > 0 then Inr (Ast (kind num) (VNum (- n)) (childNodes num) (fexp num) (props num))
                   else Inr (ast (trec this)))
              | VStr s \<Rightarrow> (if s = [] then Inr (ast (trec this)) else Inl Unmodelled))
           else Inr (ast (trec this)))
      | _ \<Rightarrow> Inr (ast (trec this)))"

text \<open>
  \<open>Power.tree\<close>:
  \<^verbatim>\<open>
    const child = this.ast.childNodes;
    if (this.applyData && this.isast('FuncName', child[0]) &&
        (child[0] as FuncName).inverse && child[1].toString() === '-1') {
      child[0].value = (child[0] as FuncName).inverse;
      return child[0];
    }
    return super.tree();
  \<close>
\<close>

definition Power_tree :: "token \<Rightarrow> error + ast" where
  "Power_tree this =
     (case childNodes (ast (trec this)) of
        [] \<Rightarrow> Inr (ast (trec this))
      | c0 # rest \<Rightarrow>
          (if applyData (trec this) \<noteq> None \<and> isast KFuncName c0 \<and> jsTruthy (getProp c0 ''inverse'')
           then
             (case rest of
                [] \<Rightarrow> Inl TypeError
              | c1 # _ \<Rightarrow>
                  (case toString c1 of
                     None \<Rightarrow> Inl TypeError
                   | Some s \<Rightarrow>
                       (if s = ''-1''
                        then Inr (Ast (kind c0) (VStr (propString (getProp c0 ''inverse'')))
                                      (childNodes c0) (fexp c0) (props c0))
                        else Inr (ast (trec this)))))
           else Inr (ast (trec this))))"

text \<open>
  \<open>Relation.tree\<close>:
  \<^verbatim>\<open>
    if (this.ast.childNodes.length <= 2) return super.tree();
    const type = this.type;
    return this.createAst('MultiRel', this.combined[type] || type, this.ast.childNodes,
                          this.list, this.opStrings);
  \<close>
\<close>

definition Relation_tree :: "token \<Rightarrow> error + ast" where
  "Relation_tree this =
     (if length (childNodes (ast (trec this))) \<le> 2 then Inr (ast (trec this))
      else
        (let ty = optype (trec this);
             name = (case map_of (combined (trec this)) ty of
                       Some c \<Rightarrow> if c \<noteq> [] then c else ty
                     | None \<Rightarrow> ty)
         in Inr (newMultiRel name (childNodes (ast (trec this))) (relList (trec this))
                   (opStrings (trec this)))))"

text \<open>
  \<open>ApplyOp.tree\<close>: a named function takes the name as the node's value; any other head
  becomes the \<open>exp\<close> of a \<open>FuncExp\<close> node.  \<open>prec\<close> is the precedence of the base class
  \<open>ApplyOp\<close>.
\<close>

definition ApplyOp_tree :: "token \<Rightarrow> error + ast" where
  "ApplyOp_tree this =
     (let node = ast (trec this);
          prec = (7 / 2 :: rat);
          auto = (prec = precedence (trec this))
      in case childNodes node of
           [] \<Rightarrow> Inr (newFuncExp None [] auto prec)
         | c0 # rest \<Rightarrow>
             (if isast KName c0 then
                (let n1 = Ast (kind node) (nvalue c0) rest (fexp node) (props node)
                 in Inr (if Some (JBool auto) \<noteq> getProp n1 ''autoApply''
                         then setProp ''autoApply'' (JBool auto) n1 else n1))
              else Inr (newFuncExp (Some c0) rest auto prec)))"

text \<open>\<open>Delimiter.canBeRemoved\<close> and \<open>Delimiter.tree\<close>.\<close>

definition canBeRemoved :: "token \<Rightarrow> bool" where
  "canBeRemoved this =
     (case childNodes (ast (trec this)) of
        [c] \<Rightarrow>
          removable (trec this) \<and>
          (\<not> isast KOp c \<or>
           (case getProp c ''precedence'' of
              Some (JNum p) \<Rightarrow> p > removePrecedence (trec this)
            | _ \<Rightarrow> False))
      | _ \<Rightarrow> False)"

definition Delimiter_tree :: "token \<Rightarrow> error + ast" where
  "Delimiter_tree this =
     (if childNodes (ast (trec this)) = [] \<and> \<not> allowEmpty (trec this) \<and> isClose (trec this) \<noteq> Some True
      then Inl (Error ''Empty delimiters not allowed'')
      else if canBeRemoved this then Inr (hd (childNodes (ast (trec this))))
      else Inr (ast (trec this)))"

text \<open>\<open>StackDelimiter.tree\<close>: \<open>this.ast.childNodes[0]\<close>.\<close>

definition StackDelimiter_tree :: "token \<Rightarrow> error + ast" where
  "StackDelimiter_tree this =
     (case childNodes (ast (trec this)) of [] \<Rightarrow> Inl Undefined | c # _ \<Rightarrow> Inr c)"

text \<open>The method \<open>tree\<close> of the token's class; \<open>Token.tree\<close> returns \<open>this.ast\<close>.\<close>

definition tree :: "token \<Rightarrow> error + ast" where
  "tree this =
     (case cls (trec this) of
        CUnaryMinus \<Rightarrow> UnaryMinus_tree this
      | CPower \<Rightarrow> Power_tree this
      | CRelation \<Rightarrow> Relation_tree this
      | CApplyOp \<Rightarrow> ApplyOp_tree this
      | CApplyArgument \<Rightarrow> ApplyOp_tree this
      | CDelimiter \<Rightarrow> Delimiter_tree this
      | CStart \<Rightarrow> StackDelimiter_tree this
      | CEnd \<Rightarrow> StackDelimiter_tree this
      | _ \<Rightarrow> Inr (ast (trec this)))"

subsection \<open>Constructing tokens (the constructors, Token.createAst, Token.createToken)\<close>

text \<open>\<open>Token.normalizeValue\<close>; the argument is absent (\<open>undefined\<close>) or a string.\<close>

definition normalizeValue :: "token \<Rightarrow> string option \<Rightarrow> string" where
  "normalizeValue this v =
     (case normalizeTo (trec this) of
        Some n \<Rightarrow> n
      | None \<Rightarrow>
          (let name = (case v of Some s \<Rightarrow> if s \<noteq> [] then s else tkind (trec this)
                                | None \<Rightarrow> tkind (trec this))
           in case map_of (normalize (trec this)) name of
                Some n \<Rightarrow> if n \<noteq> [] then n else name
              | None \<Rightarrow> name))"

text \<open>\<open>Token.createAst(type, value)\<close>: the class is \<open>this[type + 'AstClass'] || type\<close>.\<close>

definition createAst :: "token \<Rightarrow> string \<Rightarrow> string \<Rightarrow> error + ast" where
  "createAst this type v =
     (let ty = (case map_of (astClassFor (trec this)) type of
                  Some c \<Rightarrow> if c \<noteq> [] then c else type
                | None \<Rightarrow> type)
      in case getAstClass baseAst ty of Inl e \<Rightarrow> Inl e | Inr k \<Rightarrow> newAst k v)"

text \<open>The constructor of \<open>Token\<close>: the normalised value and the AST node of the class.\<close>

definition Token_ctor :: "token \<Rightarrow> string option \<Rightarrow> error + token" where
  "Token_ctor p v =
     (let this = upd (\<lambda>r. r\<lparr> tvalue := normalizeValue p v \<rparr>) p
      in case createAst this (astClass (trec this)) (tvalue (trec this)) of
           Inl e \<Rightarrow> Inl e
         | Inr a \<Rightarrow> Inr (upd (\<lambda>r. r\<lparr> ast := a \<rparr>) this))"

text \<open>
  The constructor of \<open>Operator\<close> copies \<open>transferIds\<close> to the node where they differ from
  what the node reads, then sets the node's \<open>opString\<close> from \<open>opStrings[value]\<close>.
\<close>

definition transfer :: "string \<Rightarrow> json \<Rightarrow> ast \<Rightarrow> ast" where
  "transfer ident v node = (if getProp node ident \<noteq> Some v then setProp ident v node else node)"

definition Operator_ctor :: "token \<Rightarrow> token" where
  "Operator_ctor this =
     (let r = trec this;
          a1 = transfer ''associativity'' (JStr (associativity r)) (ast r);
          a2 = transfer ''precedence'' (JNum (precedence r)) a1;
          a3 = transfer ''isComma'' (JBool (isComma r)) a2;
          a4 = transfer ''equalParens'' (JBool (equalParens r)) a3;
          a5 = transfer ''opString'' (case opString r of None \<Rightarrow> JNull | Some s \<Rightarrow> JStr s) a4;
          a6 = (case map_of (opStrings r) (tvalue r) of
                  Some s \<Rightarrow> if s \<noteq> [] then setProp ''opString'' (JStr s) a5 else a5
                | None \<Rightarrow> a5)
      in upd (\<lambda>r. r\<lparr> ast := a6 \<rparr>) this)"

text \<open>The constructor of \<open>Relation\<close>: \<open>list = [value]\<close>, \<open>type = value\<close>.\<close>

definition Relation_ctor :: "token \<Rightarrow> token" where
  "Relation_ctor this =
     upd (\<lambda>r. r\<lparr> relList := [tvalue r], optype := tvalue r \<rparr>) this"

text \<open>The constructor of \<open>Delimiter\<close> and \<open>checkIfClose\<close>.\<close>

definition isClosedBy :: "token \<Rightarrow> token \<Rightarrow> bool" where
  "isClosedBy this item = (tvalue (trec item) \<in> set (close (trec this)))"

definition checkIfClose :: "token \<Rightarrow> bool option \<Rightarrow> bool" where
  "checkIfClose this isCloseArg =
     (case isClose (trec this) of
        Some b \<Rightarrow> b
      | None \<Rightarrow>
          (case isCloseArg of
             Some b \<Rightarrow> b
           | None \<Rightarrow> if tvalue (trec this) = tkind (trec this) then False else isClosedBy this this))"

definition Delimiter_ctor :: "token \<Rightarrow> bool option \<Rightarrow> token" where
  "Delimiter_ctor this isCloseArg =
     upd (\<lambda>r. r\<lparr> isClose := Some (checkIfClose this isCloseArg) \<rparr>) this"

text \<open>The constructor of \<open>Apply\<close>: the descriptor and the name of the inverse.\<close>

definition invertAs :: "string \<Rightarrow> string" where
  "invertAs name = ''a'' @ name"

definition Apply_ctor :: "token \<Rightarrow> token" where
  "Apply_ctor this =
     (let r = trec this;
          d = \<lparr> args = fargs r, requireArgument = (frequireArgument r \<or> fautoApply r),
                autoApply = fautoApply r \<rparr>;
          a = (if isInvertible r then setProp ''inverse'' (JStr (invertAs (tvalue r))) (ast r)
               else ast r)
      in upd (\<lambda>r. r\<lparr> applyData := Some d, ast := a, canApply := True, pushed := False \<rparr>) this)"

text \<open>
  \<open>new CLASS(stack, value, isClose)\<close> for a class whose constructor takes the value.  The
  constructors of \<open>Tree\<close>, \<open>Group\<close>, \<open>ApplyOp\<close> and \<open>ApplyPending\<close> take a token and call a
  method of it, which is a \<open>TypeError\<close> on a string.
\<close>

definition construct :: "token \<Rightarrow> string option \<Rightarrow> bool option \<Rightarrow> error + token" where
  "construct p v isCloseArg =
     (case cls (trec p) of
        CTree \<Rightarrow> Inl TypeError
      | CGroup \<Rightarrow> Inl TypeError
      | CApplyOp \<Rightarrow> Inl TypeError
      | CApplyArgument \<Rightarrow> Inl TypeError
      | CApplyPending \<Rightarrow> Inl TypeError
      | c \<Rightarrow>
          (case Token_ctor p v of
             Inl e \<Rightarrow> Inl e
           | Inr t \<Rightarrow>
               (if c = CToken \<or> c = COperand then Inr t
                else if c = CApply then Inr (Apply_ctor t)
                else if c = CRelation then Inr (Relation_ctor (Operator_ctor t))
                else if c = CDelimiter \<or> c = CStart \<or> c = CEnd then Inr (Delimiter_ctor t isCloseArg)
                else if c = CLookAhead \<or> c = CAngle
                  then Inr (setSaved [] (upd (\<lambda>r. r\<lparr> isOpen := False, hasComma := False,
                                                       isClosed := False \<rparr>) t))
                else Inr (Operator_ctor t))))"

text \<open>\<open>new Tree(stack, token)\<close>, as \<open>createToken('Tree', token)\<close> builds it.\<close>

definition Tree_ctor :: "token \<Rightarrow> token \<Rightarrow> error + token" where
  "Tree_ctor p tok =
     (case Token_ctor p None of
        Inl e \<Rightarrow> Inl e
      | Inr t \<Rightarrow>
          (case tree tok of
             Inl e \<Rightarrow> Inl e
           | Inr a \<Rightarrow> saveFunction (upd (\<lambda>r. r\<lparr> ast := a \<rparr>) t) tok))"

definition newTree :: "token \<Rightarrow> error + token" where
  "newTree tok = Tree_ctor Tree tok"

text \<open>\<open>new Group(stack, open, close, token)\<close>.\<close>

definition newGroup :: "string \<Rightarrow> string \<Rightarrow> token \<Rightarrow> error + token" where
  "newGroup opn cl tok =
     (case Tree_ctor Group tok of
        Inl e \<Rightarrow> Inl e
      | Inr t \<Rightarrow>
          Inr (upd (\<lambda>r. r\<lparr> ast := setProp ''close'' (JStr cl) (setProp ''open'' (JStr opn) (ast r)),
                            gopen := opn, gclose := cl, isApply := isApply (trec tok) \<rparr>) t))"

text \<open>\<open>new ApplyOp(stack, token)\<close>, \<open>new ApplyArgument(stack, token)\<close>,
  \<open>new ApplyPending(stack, token)\<close>: the constructor of \<open>Operator\<close> without a value, then
  \<open>token.copyApplyDataTo(this)\<close>.\<close>

definition Apply_like_ctor :: "token \<Rightarrow> token \<Rightarrow> error + token" where
  "Apply_like_ctor p tok =
     (case Token_ctor p None of
        Inl e \<Rightarrow> Inl e
      | Inr t \<Rightarrow> Inr (upd (\<lambda>r. r\<lparr> applyData := applyData (trec tok) \<rparr>) (Operator_ctor t)))"

definition newApplyOp :: "token \<Rightarrow> error + token" where
  "newApplyOp tok = Apply_like_ctor ApplyOp tok"

definition newApplyArgument :: "token \<Rightarrow> error + token" where
  "newApplyArgument tok = Apply_like_ctor ApplyArgument tok"

definition newApplyPending :: "token \<Rightarrow> error + token" where
  "newApplyPending tok = Apply_like_ctor ApplyPending tok"

text \<open>
  \<open>createToken(name, value, isClose)\<close> for \<open>unary\<close>, \<open>operator\<close> and \<open>delimiter\<close>: the
  class is \<open>this[name + 'Class']\<close>; without one the name itself is looked up among the
  base tokens, where no class has one of these names.
\<close>

definition createTokenOf ::
  "token option \<Rightarrow> string \<Rightarrow> string option \<Rightarrow> bool option \<Rightarrow> error + token" where
  "createTokenOf c name v isCloseArg =
     (case c of
        Some p \<Rightarrow> construct p v isCloseArg
      | None \<Rightarrow> Inl (Error (''No definition for token class: '' @ name)))"

section \<open>The token catalogue (token/Standard.ts, token/Inequalities.ts)\<close>

definition ListOp :: token where
  "ListOp = upd (\<lambda>r. r\<lparr> tkind := ''list'', token := ['',''], precedence := 1 / 4, combine := True,
                         isComma := True, opString := Some '', '' \<rparr>) BinaryOp"

definition uplus :: token where
  "uplus = upd (\<lambda>r. r\<lparr> tkind := ''uplus'', precedence := 3 \<rparr>) UnaryOp"

definition Plus :: token where
  "Plus = setUnaryClass uplus
            (upd (\<lambda>r. r\<lparr> tkind := ''plus'', token := [''+''], precedence := 1, combine := True,
                          optype := ''both'' \<rparr>) BinaryOp)"

definition UnaryMinus :: token where
  "UnaryMinus = upd (\<lambda>r. r\<lparr> cls := CUnaryMinus, tkind := ''uminus'', precedence := 3,
                             negateNumbers := True \<rparr>) UnaryOp"

definition Minus :: token where
  "Minus = setUnaryClass UnaryMinus
             (upd (\<lambda>r. r\<lparr> tkind := ''plus'', token := [''-''], precedence := 1, optype := ''both'',
                           normalizeTo := Some ''-'' \<rparr>) BinaryOp)"

definition Multiply :: token where
  "Multiply = upd (\<lambda>r. r\<lparr> tkind := ''multiply'', token := [''*''], precedence := 2,
                           combine := True \<rparr>) BinaryOp"

definition Divide :: token where
  "Divide = upd (\<lambda>r. r\<lparr> tkind := ''divide'', token := [''/''], precedence := 2,
                         equalParens := True \<rparr>) BinaryOp"

definition Power :: token where
  "Power = upd (\<lambda>r. r\<lparr> cls := CPower, tkind := ''power'', token := [''^''], precedence := 4,
                        associativity := ''right'', appliesLeft := True,
                        opString := Some ''^'' \<rparr>) BinaryOp"

definition Factorial :: token where
  "Factorial = upd (\<lambda>r. r\<lparr> tkind := ''factorial'', token := [''!''], precedence := 5,
                            associativity := ''right'' \<rparr>) UnaryOp"

definition Parens :: token where
  "Parens = upd (\<lambda>r. r\<lparr> tkind := ''parens'', token := [''('', '')''], close := ['')''],
                         removable := True, removePrecedence := 99 / 100,
                         isApply := True \<rparr>) Delimiter"

definition Identifier :: token where
  "Identifier = upd (\<lambda>r. r\<lparr> tkind := ''identifier'', pattern := Some ''[a-zA-Z]'' \<rparr>) Operand"

definition Numeric :: token where
  "Numeric = upd (\<lambda>r. r\<lparr> tkind := ''number'',
                          pattern := Some (''[0-9]+(?:'' @ [CHR 0x5C] @ ''.[0-9]*)?|'' @ [CHR 0x5C] @ ''.[0-9]+''),
                          canApply := True, astClass := ''Num'' \<rparr>) Operand"

definition Trig :: token where
  "Trig = upd (\<lambda>r. r\<lparr> tkind := ''trig'',
                       token := [''sin'', ''cos'', ''tan'', ''sec'', ''csc'', ''cot''],
                       fautoApply := True, isInvertible := True \<rparr>) Apply"

definition FunctionLetters :: token where
  "FunctionLetters = upd (\<lambda>r. r\<lparr> tkind := ''functions'', token := [''f'', ''g''],
                                  frequireArgument := False \<rparr>) Apply"

definition StrictInequalities :: token where
  "StrictInequalities = upd (\<lambda>r. r\<lparr> tkind := ''inequalities'', token := [''<'', ''>''],
                                     priority := 15 \<rparr>) Relation"

text \<open>The output strings of the weak inequalities are \<open>' \<le> '\<close> and \<open>' \<ge> '\<close> (U+2264 and
  U+2265 between spaces), written here as their UTF-8 bytes; the two Unicode token
  strings of the class and their \<open>normalize\<close> entries are left out.\<close>

definition WeakInequalities :: token where
  "WeakInequalities =
     upd (\<lambda>r. r\<lparr> tkind := ''inequalities'', token := [''<='', ''>=''],
                  combined := [(''<='', ''<''), (''>='', ''>'')],
                  opStrings := [(''<='', [CHR '' '', CHR 0xE2, CHR 0x89, CHR 0xA4, CHR '' '']),
                                (''>='', [CHR '' '', CHR 0xE2, CHR 0x89, CHR 0xA5, CHR '' ''])] \<rparr>)
         Relation"

definition Equals :: token where
  "Equals = upd (\<lambda>r. r\<lparr> tkind := ''equals'', token := [''=''] \<rparr>) Relation"

definition NotEqual :: token where
  "NotEqual = upd (\<lambda>r. r\<lparr> tkind := ''notequal'', token := [''!=''], combine := False,
                           normalizeTo := Some ''!='',
                           opString := Some [CHR 0xE2, CHR 0x89, CHR 0xA0] \<rparr>) Relation"

definition InequalitiesWithVectors :: token where
  "InequalitiesWithVectors = Angle"

section \<open>The stack and the negotiation protocol (Stack.ts)\<close>

text \<open>
  The stack is a list of tokens with the top at the head.  One push can pop items, push
  others and re-enter \<open>Stack.push\<close>; the methods below are written over a parameter
  \<open>rec\<close> that stands for the three re-entrant operations: \<open>Stack.push\<close>, the \<open>append\<close>
  method of the top item, and the loop of \<open>Delimiter.follows\<close> that closes a group.
  \<open>exec\<close> ties the knot with a bound on the depth of the recursion.
\<close>

type_synonym stack = "token list"

datatype call = Push token | Append token | Close token

type_synonym recf = "call \<Rightarrow> stack \<Rightarrow> error + stack"

definition bind :: "error + 'a \<Rightarrow> ('a \<Rightarrow> error + 'b) \<Rightarrow> error + 'b" where
  "bind m f = (case m of Inl e \<Rightarrow> Inl e | Inr v \<Rightarrow> f v)"

definition stack_top :: "stack \<Rightarrow> token option" where
  "stack_top st = (case st of [] \<Rightarrow> None | t # _ \<Rightarrow> Some t)"

definition stack_pop :: "stack \<Rightarrow> stack" where
  "stack_pop st = tl st"

text \<open>Pushing the items a handler returned, in order (the array's own \<open>push\<close>).\<close>

definition pushItems :: "token list \<Rightarrow> stack \<Rightarrow> stack" where
  "pushItems items st = rev items @ st"

subsection \<open>append\<close>

text \<open>\<open>Token.append\<close>: \<open>this.ast.append(token.tree()); this.saveFunction(token)\<close>.\<close>

definition Token_append :: "token \<Rightarrow> token \<Rightarrow> error + token" where
  "Token_append this tok =
     bind (tree tok) (\<lambda>a. saveFunction (upd (\<lambda>r. r\<lparr> ast := ast_append (ast r) a \<rparr>) this) tok)"

definition ApplyOp_name :: "token \<Rightarrow> error + string" where
  "ApplyOp_name this =
     (case childNodes (ast (trec this)) of
        [] \<Rightarrow> Inl TypeError
      | c # _ \<Rightarrow> (case toString c of None \<Rightarrow> Inl TypeError | Some s \<Rightarrow> Inr (s @ ''()'')))"

text \<open>\<open>ApplyOp.append\<close>: an argument group gives its children, after the arity check.\<close>

definition ApplyOp_append :: "token \<Rightarrow> token \<Rightarrow> error + token" where
  "ApplyOp_append this tok =
     (if childNodes (ast (trec this)) \<noteq> [] \<and> isa CGroup tok \<and> isApply (trec tok) then
        bind (tree tok) (\<lambda>g.
          case applyData (trec this) of
            None \<Rightarrow> Inl TypeError
          | Some d \<Rightarrow>
              if args d \<noteq> enat (length (childNodes g)) \<and> args d \<noteq> \<infinity>
              then bind (ApplyOp_name this) (\<lambda>n. Inl (Error (''Wrong number of arguments for '' @ n)))
              else Inr (upd (\<lambda>r. r\<lparr> ast := foldl ast_append (ast r) (childNodes g) \<rparr>) this))
      else Token_append this tok)"

text \<open>The \<open>append\<close> of a receiver whose method leaves the stack alone.\<close>

definition append_pure :: "token \<Rightarrow> token \<Rightarrow> error + token" where
  "append_pure this tok =
     (case cls (trec this) of
        CApplyOp \<Rightarrow> ApplyOp_append this tok
      | CApplyArgument \<Rightarrow> ApplyOp_append this tok
      | CApplyPending \<Rightarrow> Inl Unmodelled
      | _ \<Rightarrow> Token_append this tok)"

text \<open>
  \<open>ApplyPending.pushApplyOp\<close>: the explicit (\<open>ApplyArgument\<close>) or implicit (\<open>ApplyOp\<close>)
  application operator for the argument; the result tells whether one was pushed.
\<close>

definition pushApplyOp :: "recf \<Rightarrow> token \<Rightarrow> token \<Rightarrow> stack \<Rightarrow> error + (bool \<times> stack)" where
  "pushApplyOp rec this tok st =
     (case applyData (trec this) of
        None \<Rightarrow> (if isApply (trec tok)
                  then bind (newApplyArgument this) (\<lambda>item. bind (rec (Push item) st) (\<lambda>st1. Inr (True, st1)))
                  else Inl TypeError)
      | Some d \<Rightarrow>
          (if isApply (trec tok)
           then bind (newApplyArgument this) (\<lambda>item. bind (rec (Push item) st) (\<lambda>st1. Inr (True, st1)))
           else if autoApply d
           then bind (newApplyOp this) (\<lambda>item. bind (rec (Push item) st) (\<lambda>st1. Inr (True, st1)))
           else if \<not> requireArgument d then Inr (False, st)
           else Inl (Error ''Function argument must be enclosed'')))"

text \<open>
  \<open>ApplyPending.append\<close>, with \<open>appendOperator\<close> and \<open>appendOther\<close>.  The pending
  application is the top of the stack.  After \<open>pushApplyOp\<close> the item it pushed is the top
  of the stack, where \<open>item.ast.append(token.tree())\<close> updates it.
\<close>

definition appendOperator :: "recf \<Rightarrow> token \<Rightarrow> token \<Rightarrow> stack \<Rightarrow> error + stack" where
  "appendOperator rec this tok st =
     bind (rec (Append tok) st) (\<lambda>st1.
       case st1 of
         [] \<Rightarrow> Inl TypeError
       | popped # st2 \<Rightarrow>
           bind (newTree popped) (\<lambda>t.
           bind (rec (Push t) st2) (\<lambda>st3.
             rec (Push (upd (\<lambda>r. r\<lparr> precedence := precedence (trec ApplyPending) \<rparr>) this)) st3)))"

definition appendOther :: "recf \<Rightarrow> token \<Rightarrow> token \<Rightarrow> stack \<Rightarrow> error + stack" where
  "appendOther rec this tok st =
     bind (pushApplyOp rec this tok st) (\<lambda>(pushedItem, st1).
       if \<not> pushedItem then Inr st1
       else
         (case st1 of
            [] \<Rightarrow> Inl Unmodelled
          | item # st2 \<Rightarrow>
              if isa CApplyOp item
              then bind (tree tok) (\<lambda>a. Inr (upd (\<lambda>r. r\<lparr> ast := ast_append (ast r) a \<rparr>) item # st2))
              else Inl Unmodelled))"

definition ApplyPending_append :: "recf \<Rightarrow> token \<Rightarrow> stack \<Rightarrow> error + stack" where
  "ApplyPending_append rec tok st =
     (case st of
        [] \<Rightarrow> Inl TypeError
      | this # st1 \<Rightarrow>
          (case st1 of
             [] \<Rightarrow> Inl TypeError
           | tp # _ \<Rightarrow>
               if isa COperator tp then appendOperator rec this tok st1
               else appendOther rec this tok st1))"

text \<open>\<open>this.stack.top().append(token)\<close>.\<close>

definition appendTop :: "recf \<Rightarrow> token \<Rightarrow> stack \<Rightarrow> error + stack" where
  "appendTop rec tok st =
     (case st of
        [] \<Rightarrow> Inl TypeError
      | this # rest \<Rightarrow>
          if cls (trec this) = CApplyPending then ApplyPending_append rec tok st
          else bind (append_pure this tok) (\<lambda>this1. Inr (this1 # rest)))"

subsection \<open>Operators (token/Operator.ts, token/Relation.ts)\<close>

definition canPrecedeOperand :: "token \<Rightarrow> bool" where
  "canPrecedeOperand this = (optype (trec this) = ''binary'' \<or> associativity (trec this) = ''left'')"

definition canBeLeftUnary :: "token \<Rightarrow> bool" where
  "canBeLeftUnary this = (optype (trec this) \<noteq> ''binary'' \<and> associativity (trec this) = ''left'')"

definition checkIsLeftUnary :: "token \<Rightarrow> token \<Rightarrow> bool" where
  "checkIsLeftUnary this tp =
     (associativity (trec this) = ''left'' \<and>
      (optype (trec this) = ''unary'' \<or> (optype (trec this) = ''both'' \<and> \<not> isa COperand tp)))"

definition checkIsRightUnary :: "token \<Rightarrow> token \<Rightarrow> bool" where
  "checkIsRightUnary this tp =
     (associativity (trec this) = ''right'' \<and>
      (optype (trec this) = ''unary'' \<or> (optype (trec this) = ''both'' \<and> \<not> isa COperator tp)))"

text \<open>\<open>Operator.checkIsHigherPrecedence\<close> and its override in \<open>ApplyArgument\<close>.\<close>

definition Operator_checkIsHigherPrecedence :: "token \<Rightarrow> token \<Rightarrow> bool" where
  "Operator_checkIsHigherPrecedence this prev =
     (precedence (trec prev) > precedence (trec this) \<or>
      (precedence (trec prev) = precedence (trec this) \<and> associativity (trec this) = ''left''))"

definition checkIsHigherPrecedence :: "token \<Rightarrow> token \<Rightarrow> token \<Rightarrow> bool" where
  "checkIsHigherPrecedence this prev tp =
     (if cls (trec this) = CApplyArgument
      then applyData (trec tp) = None \<or> Operator_checkIsHigherPrecedence this prev
      else Operator_checkIsHigherPrecedence this prev)"

text \<open>\<open>Operator.canCombine\<close>.\<close>

definition Operator_canCombine :: "token \<Rightarrow> token \<Rightarrow> bool" where
  "Operator_canCombine this prev =
     (tvalue (trec prev) = tvalue (trec this) \<and> combine (trec this) \<and> optype (trec prev) \<noteq> ''unary'')"

text \<open>
  \<open>Relation.canCombine\<close>:
  \<^verbatim>\<open>
    const can = this.combine && prev.isa('Relation') &&
      (prev.type === '=' || (this.value === '=' || prev.type.charAt(0) === this.value.charAt(0)));
    if (can) {
      prev.list.push(this.value);
      if (prev.type === '=') { prev.type = this.value.charAt(0); }
    }
    return can;
  \<close>
  The result is the answer and the previous relation as the call leaves it.
\<close>

definition Relation_canCombine :: "token \<Rightarrow> token \<Rightarrow> bool \<times> token" where
  "Relation_canCombine this prev =
     (let can = (combine (trec this) \<and> isa CRelation prev \<and>
                 (optype (trec prev) = ''='' \<or>
                  (tvalue (trec this) = ''='' \<or>
                   take 1 (optype (trec prev)) = take 1 (tvalue (trec this)))))
      in if can
         then (True, upd (\<lambda>r. r\<lparr> relList := relList r @ [tvalue (trec this)],
                                  optype := (if optype r = ''='' then take 1 (tvalue (trec this))
                                             else optype r) \<rparr>) prev)
         else (False, prev))"

definition canCombine :: "token \<Rightarrow> token \<Rightarrow> bool \<times> token" where
  "canCombine this prev =
     (if cls (trec this) = CRelation then Relation_canCombine this prev
      else (Operator_canCombine this prev, prev))"

text \<open>\<open>Operator.makeUnary\<close>.\<close>

definition makeUnary :: "token \<Rightarrow> error + token" where
  "makeUnary this =
     (if optype (trec this) = ''unary'' then Inr this
      else createTokenOf (unaryClass this) ''unary'' (Some (tvalue (trec this))) None)"

text \<open>
  \<open>Operator.checkOperator\<close>:
  \<^verbatim>\<open>
    const stack = this.stack;
    stack.pop();
    let prev = stack.top();
    if (prev.isa('Operator') && this.checkIsHigherPrecedence(prev, top)) {
      prev.append(top);
      if (!this.canCombine(prev as Operator)) {
        stack.pop();
        stack.push(this.createToken('Tree', prev));
        stack.push(this);
      }
      return [];
    }
    return null;
  \<close>
  The result tells whether the operand was handled (\<open>[]\<close>) or not (\<open>null\<close>).  A pending
  application is never the operator below an operand (its \<open>followedBy\<close> takes every
  operand); the model does not follow that state.
\<close>

definition Operator_checkOperator :: "recf \<Rightarrow> token \<Rightarrow> stack \<Rightarrow> error + (bool \<times> stack)" where
  "Operator_checkOperator rec this st =
     (case st of
        [] \<Rightarrow> Inl TypeError
      | tp # st1 \<Rightarrow>
          (case st1 of
             [] \<Rightarrow> Inl TypeError
           | prev # _ \<Rightarrow>
               if isa COperator prev \<and> checkIsHigherPrecedence this prev tp then
                 (if cls (trec prev) = CApplyPending then Inl Unmodelled
                  else
                    bind (rec (Append tp) st1) (\<lambda>st2.
                      case st2 of
                        [] \<Rightarrow> Inl Unmodelled
                      | prev1 # st3 \<Rightarrow>
                          (case canCombine this prev1 of
                             (can, prev2) \<Rightarrow>
                               if \<not> can then
                                 bind (newTree prev2) (\<lambda>t.
                                 bind (rec (Push t) st3) (\<lambda>st4.
                                 bind (rec (Push this) st4) (\<lambda>st5. Inr (True, st5))))
                               else Inr (True, prev2 # st3))))
               else Inr (False, st1)))"

text \<open>
  \<open>Operator.follows\<close>:
  \<^verbatim>\<open>
    if (this.checkLeftUnary(top)) return [this.makeUnary()];
    if (!(top.isa('Operand'))) { this.error(`Missing operand before ${this.value}`); }
    if (this.checkOperator(top)) return [];
    this.append(top);
    if (top.isa('Apply')) top.copyApplyDataTo(this);
    if (this.checkRightUnary(top)) return [];
    return [this];
  \<close>
  An operator is never pushed on an empty stack (the start delimiter is pushed first).
\<close>

definition Operator_follows :: "recf \<Rightarrow> token \<Rightarrow> stack \<Rightarrow> error + (token list \<times> stack)" where
  "Operator_follows rec this st =
     (case st of
        [] \<Rightarrow> Inl Unmodelled
      | tp # _ \<Rightarrow>
          if checkIsLeftUnary this tp then bind (makeUnary this) (\<lambda>u. Inr ([u], st))
          else if \<not> isa COperand tp
            then Inl (Error (''Missing operand before '' @ tvalue (trec this)))
          else
            bind (Operator_checkOperator rec this st) (\<lambda>(handled, st1).
              if handled then Inr ([], st1)
              else
                bind (append_pure this tp) (\<lambda>this1.
                  let this2 = (if isa CApply tp
                               then upd (\<lambda>r. r\<lparr> applyData := applyData (trec tp) \<rparr>) this1
                               else this1)
                  in if checkIsRightUnary this2 tp then
                       bind (makeUnary this2) (\<lambda>u.
                       bind (newTree u) (\<lambda>t.
                       bind (rec (Push t) st1) (\<lambda>st2. Inr ([], st2))))
                     else Inr ([this2], st1))))"

subsection \<open>Operands and functions (token/Operand.ts, token/Apply.ts)\<close>

definition Operand_follows :: "recf \<Rightarrow> token \<Rightarrow> stack \<Rightarrow> error + (token list \<times> stack)" where
  "Operand_follows rec this st =
     (case st of
        [] \<Rightarrow> Inl TypeError
      | tp # _ \<Rightarrow>
          if \<not> isa COperand tp then Inr ([this], st)
          else
            bind (construct Juxtapose None None) (\<lambda>j.
            bind (rec (Push j) st) (\<lambda>st1.
            bind (rec (Push this) st1) (\<lambda>st2. Inr ([], st2)))))"

definition Apply_follows :: "recf \<Rightarrow> token \<Rightarrow> stack \<Rightarrow> error + (token list \<times> stack)" where
  "Apply_follows rec this st =
     (if pushed (trec this) then Inr ([this], st)
      else
        (let this1 = upd (\<lambda>r. r\<lparr> pushed := True \<rparr>) this
         in case st of
              [] \<Rightarrow> Inl TypeError
            | tp # _ \<Rightarrow>
                bind (if isa COperand tp
                      then bind (construct Juxtapose None None) (\<lambda>j. rec (Push j) st)
                      else Inr st) (\<lambda>st1.
                bind (newApplyPending this1) (\<lambda>ap. Inr ([this1, ap], st1)))))"

subsection \<open>Closing a group (the method group)\<close>

text \<open>\<open>Token.group\<close>: \<open>this.stack.pop(); this.stack.top().append(this); return false\<close>.
  The receiver is the top of the stack.\<close>

definition Token_group :: "recf \<Rightarrow> token \<Rightarrow> stack \<Rightarrow> error + (bool \<times> stack)" where
  "Token_group rec this st =
     (case stack_pop st of
        [] \<Rightarrow> Inl TypeError
      | st1 \<Rightarrow> bind (rec (Append this) st1) (\<lambda>st2. Inr (False, st2)))"

text \<open>\<open>Operator.checkOperands\<close> and \<open>Operator.group\<close>.\<close>

definition checkOperands :: "token \<Rightarrow> bool" where
  "checkOperands this =
     (length (childNodes (ast (trec this))) \<ge> 2 \<or>
      (optype (trec this) = ''unary'' \<and> length (childNodes (ast (trec this))) = 1))"

definition Operator_group :: "recf \<Rightarrow> token \<Rightarrow> stack \<Rightarrow> error + (bool \<times> stack)" where
  "Operator_group rec this st =
     (if \<not> checkOperands this
      then Inl (Error (''Missing operand following '' @ valueString (nvalue (ast (trec this)))))
      else Token_group rec this st)"

text \<open>\<open>ApplyOp.group\<close>.\<close>

definition ApplyOp_group :: "recf \<Rightarrow> token \<Rightarrow> stack \<Rightarrow> error + (bool \<times> stack)" where
  "ApplyOp_group rec this st =
     (if length (childNodes (ast (trec this))) < 2
      then bind (ApplyOp_name this) (\<lambda>n. Inl (Error (''Missing argument for '' @ n)))
      else
        (case stack_pop st of
           [] \<Rightarrow> Inl TypeError
         | st1 \<Rightarrow> bind (newTree this) (\<lambda>t. bind (rec (Append t) st1) (\<lambda>st2. Inr (False, st2)))))"

text \<open>\<open>ApplyPending.group\<close>.\<close>

definition ApplyPending_group :: "recf \<Rightarrow> token \<Rightarrow> stack \<Rightarrow> error + (bool \<times> stack)" where
  "ApplyPending_group rec this st =
     (case applyData (trec this) of
        None \<Rightarrow> Inl TypeError
      | Some d \<Rightarrow>
          if requireArgument d
          then bind (newApplyArgument this) (\<lambda>a.
               bind (rec (Push a) (stack_pop st)) (\<lambda>st1. Inr (False, st1)))
          else Inr (False, stack_pop st))"

text \<open>
  \<open>Delimiter.group\<close>:
  \<^verbatim>\<open>
    if (this.isClosedBy(item)) {
      if (!this.isa('Start')) {
        this.stack.pop();
        this.stack.push(this.canBeRemoved() ?
                        this.createToken('Tree', this) :
                        this.createToken('Group', this.value, item.value, this));
        if (this.applyData) { this.stack.push(this.createToken('ApplyPending', this)); }
      }
      return true;
    }
    if (this.isa('Start')) {
      this.error(`Missing open delimiter for '${item.value}'`);
    } else if (item.isa('End')) {
      this.error(`Missing close delimiter for '${this.value}'`);
    }
    this.error(`Mismatched delimiters: '${this.value}' and '${item.value}'`);
    return false;
  \<close>
\<close>

definition quoted :: "string \<Rightarrow> string" where
  "quoted s = [CHR 0x27] @ s @ [CHR 0x27]"

definition Delimiter_group :: "recf \<Rightarrow> token \<Rightarrow> token \<Rightarrow> stack \<Rightarrow> error + (bool \<times> stack)" where
  "Delimiter_group rec this item st =
     (if isClosedBy this item then
        (if \<not> isa CStart this then
           bind (if canBeRemoved this then newTree this
                 else newGroup (tvalue (trec this)) (tvalue (trec item)) this) (\<lambda>t.
           bind (rec (Push t) (stack_pop st)) (\<lambda>st1.
             if applyData (trec this) \<noteq> None
             then bind (newApplyPending this) (\<lambda>ap.
                  bind (rec (Push ap) st1) (\<lambda>st2. Inr (True, st2)))
             else Inr (True, st1)))
         else Inr (True, st))
      else if isa CStart this
        then Inl (Error (''Missing open delimiter for '' @ quoted (tvalue (trec item))))
      else if isa CEnd item
        then Inl (Error (''Missing close delimiter for '' @ quoted (tvalue (trec this))))
      else Inl (Error (''Mismatched delimiters: '' @ quoted (tvalue (trec this)) @ '' and '' @
                       quoted (tvalue (trec item)))))"

subsection \<open>Look-ahead tokens (token/LookAhead.ts, token/Angle.ts)\<close>

fun pushAll :: "recf \<Rightarrow> token list \<Rightarrow> stack \<Rightarrow> error + stack" where
  "pushAll rec [] st = Inr st"
| "pushAll rec (t # ts) st = bind (rec (Push t) st) (pushAll rec ts)"

text \<open>
  \<open>LookAhead.unravel(item, isClose)\<close>: pop the look-ahead (the top of the stack), push
  the token of the class \<open>this[item + 'Class']\<close>, then the saved tokens.
\<close>

definition unravel :: "recf \<Rightarrow> token \<Rightarrow> string \<Rightarrow> bool \<Rightarrow> stack \<Rightarrow> error + stack" where
  "unravel rec this item isCloseArg st =
     bind (createTokenOf (if item = ''operator'' then operatorClass this else delimiterClass this)
             item None (Some isCloseArg)) (\<lambda>t.
     bind (rec (Push t) (stack_pop st)) (\<lambda>st1. pushAll rec (saved this) st1))"

definition LookAhead_group :: "recf \<Rightarrow> token \<Rightarrow> stack \<Rightarrow> error + (bool \<times> stack)" where
  "LookAhead_group rec this st =
     (if saved this \<noteq> [] then bind (unravel rec this ''operator'' False st) (\<lambda>st1. Inr (False, st1))
      else Inl (Error (''Missing operand after '' @ tvalue (trec this))))"

text \<open>The result of \<open>followedByCheck\<close>: \<open>undefined\<close>, \<open>null\<close> or a list of tokens.\<close>

datatype check = CheckUndefined | CheckNull | CheckItems "token list"

text \<open>The second token string of an \<open>Angle\<close>, \<open>this.token[1]\<close>.\<close>

definition closeToken :: "token \<Rightarrow> string option" where
  "closeToken this = (case token (trec this) of _ # c # _ \<Rightarrow> Some c | _ \<Rightarrow> None)"

text \<open>
  \<open>Angle.followedByCheck\<close> with \<open>checkIsClosed\<close>, \<open>isOperator\<close> and \<open>checkOperator\<close>; the
  receiver is the top of the stack, and a comma is recorded on it there.
\<close>

definition Angle_followedByCheck :: "recf \<Rightarrow> token \<Rightarrow> token \<Rightarrow> stack \<Rightarrow> error + (check \<times> stack)" where
  "Angle_followedByCheck rec this tok st =
     (if isClosed (trec this) then
        (let item = (if isa COperand tok \<and> hasComma (trec this) \<and> \<not> isOpen (trec this)
                     then ''operator'' else ''delimiter'')
         in bind (unravel rec this item False st) (\<lambda>st1.
            bind (createTokenOf (if item = ''operator'' then operatorClass this else delimiterClass this)
                    item (closeToken this) (Some True)) (\<lambda>c.
            bind (rec (Push c) st1) (\<lambda>st2.
            bind (rec (Push tok) st2) (\<lambda>st3. Inr (CheckItems [], st3))))))
      else if isa CDelimiter tok then Inr (CheckNull, st)
      else if isa COperator tok \<and> tvalue (trec tok) = '',''
        then Inr (CheckUndefined, upd (\<lambda>r. r\<lparr> hasComma := True \<rparr>) this # stack_pop st)
      else Inr (CheckUndefined, st))"

definition followedByCheck :: "recf \<Rightarrow> token \<Rightarrow> token \<Rightarrow> stack \<Rightarrow> error + (check \<times> stack)" where
  "followedByCheck rec this tok st =
     (if cls (trec this) = CAngle then Angle_followedByCheck rec this tok st
      else Inr (if isa CDelimiter tok then CheckNull else CheckUndefined, st))"

text \<open>\<open>followedBySelf\<close> of \<open>LookAhead\<close> and of \<open>Angle\<close>.\<close>

definition LookAhead_followedBySelf ::
  "recf \<Rightarrow> token \<Rightarrow> token \<Rightarrow> stack \<Rightarrow> error + (token list \<times> stack)" where
  "LookAhead_followedBySelf rec this tok st =
     (if saved this \<noteq> [] \<and>
         \<not> (isa COperator (last (saved this)) \<and> canPrecedeOperand (last (saved this)))
      then
        bind (unravel rec this ''delimiter'' False st) (\<lambda>st1.
        bind (createTokenOf (delimiterClass this) ''delimiter'' (Some (lclose (trec this))) (Some True)) (\<lambda>c.
        bind (rec (Push c) st1) (\<lambda>st2. Inr ([], st2))))
      else Inr ([tok], st))"

definition Angle_followedBySelf :: "token \<Rightarrow> token \<Rightarrow> stack \<Rightarrow> error + (token list \<times> stack)" where
  "Angle_followedBySelf this tok st =
     (if token (trec this) \<noteq> [] \<and> tvalue (trec tok) = hd (token (trec this)) then Inr ([tok], st)
      else Inr ([], upd (\<lambda>r. r\<lparr> isClosed := True \<rparr>) this # stack_pop st))"

text \<open>
  \<open>token instanceof this.constructor\<close>: the token's class is the look-ahead's class or
  derived from it.  Classes made by \<open>define\<close> are told apart by their kind.
\<close>

definition instanceOfClassOf :: "token \<Rightarrow> token \<Rightarrow> bool" where
  "instanceOfClassOf tok this = (isa (cls (trec this)) tok \<and> tkind (trec tok) = tkind (trec this))"

text \<open>
  \<open>LookAhead.followedBy\<close>:
  \<^verbatim>\<open>
    const check = this.followedByCheck(token);
    if (check !== undefined) return check;
    if (token instanceof this.constructor) { return this.followedBySelf(token); }
    this.saved.push(token);
    return [];
  \<close>
\<close>

definition LookAhead_followedBy ::
  "recf \<Rightarrow> token \<Rightarrow> token \<Rightarrow> stack \<Rightarrow> error + (token list option \<times> token \<times> stack)" where
  "LookAhead_followedBy rec this tok st =
     bind (followedByCheck rec this tok st) (\<lambda>(chk, st1).
       case chk of
         CheckItems items \<Rightarrow> Inr (Some items, tok, st1)
       | CheckNull \<Rightarrow> Inr (None, tok, st1)
       | CheckUndefined \<Rightarrow>
           (case st1 of
              [] \<Rightarrow> Inl Unmodelled
            | this1 # rest \<Rightarrow>
                if instanceOfClassOf tok this1 then
                  bind (if cls (trec this1) = CAngle then Angle_followedBySelf this1 tok st1
                        else LookAhead_followedBySelf rec this1 tok st1) (\<lambda>(items, st2).
                    Inr (Some items, tok, st2))
                else Inr (Some [], tok, setSaved (saved this1 @ [tok]) this1 # rest)))"

text \<open>
  \<open>Angle.follows\<close>: an open angle stays on the stack as a look-ahead, a close angle that
  no look-ahead took is pushed as an operator.
\<close>

definition Angle_follows :: "recf \<Rightarrow> token \<Rightarrow> stack \<Rightarrow> error + (token list \<times> stack)" where
  "Angle_follows rec this st =
     (if token (trec this) \<noteq> [] \<and> tvalue (trec this) = hd (token (trec this)) then
        (case st of
           [] \<Rightarrow> Inl TypeError
         | tp # _ \<Rightarrow>
             Inr ([if isa CDelimiter tp \<or> (isa COperator tp \<and> canPrecedeOperand tp)
                   then upd (\<lambda>r. r\<lparr> isOpen := True \<rparr>) this else this], st))
      else
        bind (createTokenOf (operatorClass this) ''operator'' (Some (tvalue (trec this))) None) (\<lambda>p.
        bind (rec (Push p) st) (\<lambda>st1. Inr ([], st1))))"

subsection \<open>The pending application (ApplyPending.followedBy)\<close>

text \<open>
  \<open>ApplyPending.followedBy\<close> is
  \<open>checkOperator(token) || checkOperand(token) || checkDelimiter(token)\<close>; the receiver is
  the top of the stack.  The result is the list of items (or \<open>null\<close>), the following
  token (\<open>checkDelimiter\<close> clears its \<open>removable\<close>) and the stack.
\<close>

definition checkAutoApply :: "token \<Rightarrow> ApplyData \<Rightarrow> token \<Rightarrow> error + token list option" where
  "checkAutoApply this d tok =
     (if autoApply d then
        (if canBeLeftUnary tok then bind (makeUnary tok) (\<lambda>u. Inr (Some [this, u]))
         else if isa CJuxtapose tok then Inr (Some [this])
         else Inr None)
      else Inr None)"

definition ApplyPending_checkOperator ::
  "recf \<Rightarrow> token \<Rightarrow> token \<Rightarrow> stack \<Rightarrow> error + (token list \<times> stack)" where
  "ApplyPending_checkOperator rec this tok st =
     (let st1 = stack_pop st; prev = stack_top st1
      in case applyData (trec this) of
           None \<Rightarrow> Inl TypeError
         | Some d \<Rightarrow>
             bind (if \<not> requireArgument d \<or> appliesLeft (trec tok)
                   then bind (rec (Push tok) st1) (\<lambda>st2.
                          case st2 of
                            [] \<Rightarrow> Inl TypeError
                          | tp # _ \<Rightarrow> Inr (canApply (trec tp), st2))
                   else Inr (False, st1)) (\<lambda>(required, st2).
               if required
               then Inr ([upd (\<lambda>r. r\<lparr> precedence := precedence (trec tok) \<rparr>) this], st2)
               else
                 bind (checkAutoApply this d tok) (\<lambda>result.
                   case result of
                     Some items \<Rightarrow> Inr (items, st2)
                   | None \<Rightarrow>
                       (case prev of
                          None \<Rightarrow> Inl TypeError
                        | Some p \<Rightarrow>
                            (case toString (ast (trec p)) of
                               None \<Rightarrow> Inl TypeError
                             | Some s \<Rightarrow> Inl (Error (''Missing argument for '' @ s)))))))"

definition ApplyPending_checkOperand ::
  "recf \<Rightarrow> token \<Rightarrow> token \<Rightarrow> stack \<Rightarrow> error + (token list option \<times> stack)" where
  "ApplyPending_checkOperand rec this tok st =
     (case stack_pop st of
        [] \<Rightarrow> Inl TypeError
      | tp # rest \<Rightarrow>
          if isa COperator tp
          then bind (rec (Push tok) (tp # rest)) (\<lambda>st2. Inr (Some [this], st2))
          else
            bind (pushApplyOp rec this tok (tp # rest)) (\<lambda>(pushedItem, st2).
              if \<not> pushedItem then Inr (None, st2)
              else bind (rec (Push tok) st2) (\<lambda>st3. Inr (Some [], st3))))"

definition ApplyPending_followedBy ::
  "recf \<Rightarrow> token \<Rightarrow> token \<Rightarrow> stack \<Rightarrow> error + (token list option \<times> token \<times> stack)" where
  "ApplyPending_followedBy rec this tok st =
     (if isa COperator tok
      then bind (ApplyPending_checkOperator rec this tok st) (\<lambda>(items, st1). Inr (Some items, tok, st1))
      else if isa COperand tok
      then bind (ApplyPending_checkOperand rec this tok st) (\<lambda>(items, st1). Inr (items, tok, st1))
      else if isa CDelimiter tok \<and> isApply (trec tok)
      then Inr (None, upd (\<lambda>r. r\<lparr> removable := False \<rparr>) tok, st)
      else Inr (None, tok, st))"

subsection \<open>Dispatch on the class, Stack.push and Parser.convert\<close>

definition isOperatorClass :: "tclass \<Rightarrow> bool" where
  "isOperatorClass c = (COperator \<in> set (superclasses c))"

text \<open>\<open>top.followedBy(token)\<close>; \<open>Token.followedBy\<close> returns \<open>null\<close>.\<close>

definition followedBy ::
  "recf \<Rightarrow> token \<Rightarrow> token \<Rightarrow> stack \<Rightarrow> error + (token list option \<times> token \<times> stack)" where
  "followedBy rec this tok st =
     (case cls (trec this) of
        CApplyPending \<Rightarrow> ApplyPending_followedBy rec this tok st
      | CLookAhead \<Rightarrow> LookAhead_followedBy rec this tok st
      | CAngle \<Rightarrow> LookAhead_followedBy rec this tok st
      | _ \<Rightarrow> Inr (None, tok, st))"

text \<open>
  \<open>Delimiter.follows\<close>:
  \<^verbatim>\<open>
    if (!this.isClose) return [this];
    while (top) {
      if (top.group(this)) return [];
      top = this.stack.top();
    }
    this.error(`Extra close delimiter: ${this.value}`);
    return [];
  \<close>
  The loop is the call \<open>Close\<close>.
\<close>

definition Delimiter_follows :: "recf \<Rightarrow> token \<Rightarrow> stack \<Rightarrow> error + (token list \<times> stack)" where
  "Delimiter_follows rec this st =
     (if isClose (trec this) \<noteq> Some True then Inr ([this], st)
      else bind (rec (Close this) st) (\<lambda>st1. Inr ([], st1)))"

text \<open>\<open>token.follows(top)\<close>; \<open>Token.follows\<close> and \<open>ApplyPending.follows\<close> return \<open>[this]\<close>.\<close>

definition follows :: "recf \<Rightarrow> token \<Rightarrow> stack \<Rightarrow> error + (token list \<times> stack)" where
  "follows rec this st =
     (case cls (trec this) of
        CToken \<Rightarrow> Inr ([this], st)
      | CLookAhead \<Rightarrow> Inr ([this], st)
      | CApplyPending \<Rightarrow> Inr ([this], st)
      | COperand \<Rightarrow> Operand_follows rec this st
      | CTree \<Rightarrow> Operand_follows rec this st
      | CGroup \<Rightarrow> Operand_follows rec this st
      | CApply \<Rightarrow> Apply_follows rec this st
      | CDelimiter \<Rightarrow> Delimiter_follows rec this st
      | CStart \<Rightarrow> Delimiter_follows rec this st
      | CEnd \<Rightarrow> Delimiter_follows rec this st
      | CAngle \<Rightarrow> Angle_follows rec this st
      | _ \<Rightarrow> Operator_follows rec this st)"

text \<open>\<open>top.group(item)\<close> for the top \<open>this\<close> of the stack.\<close>

definition groupTop :: "recf \<Rightarrow> token \<Rightarrow> token \<Rightarrow> stack \<Rightarrow> error + (bool \<times> stack)" where
  "groupTop rec this item st =
     (case cls (trec this) of
        CToken \<Rightarrow> Token_group rec this st
      | COperand \<Rightarrow> Token_group rec this st
      | CTree \<Rightarrow> Token_group rec this st
      | CGroup \<Rightarrow> Token_group rec this st
      | CApply \<Rightarrow> Token_group rec this st
      | CApplyOp \<Rightarrow> ApplyOp_group rec this st
      | CApplyArgument \<Rightarrow> ApplyOp_group rec this st
      | CApplyPending \<Rightarrow> ApplyPending_group rec this st
      | CDelimiter \<Rightarrow> Delimiter_group rec this item st
      | CStart \<Rightarrow> Delimiter_group rec this item st
      | CEnd \<Rightarrow> Delimiter_group rec this item st
      | CLookAhead \<Rightarrow> LookAhead_group rec this st
      | CAngle \<Rightarrow> LookAhead_group rec this st
      | _ \<Rightarrow> Operator_group rec this st)"

text \<open>One round of the loop of \<open>Delimiter.follows\<close> for the close delimiter \<open>this\<close>.\<close>

definition closeStep :: "recf \<Rightarrow> token \<Rightarrow> stack \<Rightarrow> error + stack" where
  "closeStep rec this st =
     (case st of
        [] \<Rightarrow> Inl (Error (''Extra close delimiter: '' @ tvalue (trec this)))
      | tp # _ \<Rightarrow>
          bind (groupTop rec tp this st) (\<lambda>(closed, st1).
            if closed then Inr st1 else rec (Close this) st1))"

text \<open>
  \<open>Stack.push\<close>:
  \<^verbatim>\<open>
    const top = this.top();
    const items = (top ? top.followedBy(token) : null) || token.follows(this.top());
    for (const item of items) { this.stack.push(item); }
  \<close>
  An array is truthy, also the empty one: \<open>follows\<close> is asked only after \<open>null\<close>.
\<close>

definition Stack_push ::
  "(token \<Rightarrow> token \<Rightarrow> stack \<Rightarrow> error + (token list option \<times> token \<times> stack)) \<Rightarrow>
   (token \<Rightarrow> stack \<Rightarrow> error + (token list \<times> stack)) \<Rightarrow> token \<Rightarrow> stack \<Rightarrow> error + stack" where
  "Stack_push fb fl tok st =
     (case st of
        [] \<Rightarrow> bind (fl tok st) (\<lambda>(items, st1). Inr (pushItems items st1))
      | tp # _ \<Rightarrow>
          bind (fb tp tok st) (\<lambda>(r, tok1, st1).
            case r of
              Some items \<Rightarrow> Inr (pushItems items st1)
            | None \<Rightarrow> bind (fl tok1 st1) (\<lambda>(items, st2). Inr (pushItems items st2))))"

primrec exec :: "nat \<Rightarrow> call \<Rightarrow> stack \<Rightarrow> error + stack" where
  "exec 0 c st = Inl OutOfFuel"
| "exec (Suc n) c st =
     (case c of
        Push t \<Rightarrow> Stack_push (followedBy (exec n)) (follows (exec n)) t st
      | Append t \<Rightarrow> appendTop (exec n) t st
      | Close t \<Rightarrow> closeStep (exec n) t st)"

definition push :: "nat \<Rightarrow> token \<Rightarrow> stack \<Rightarrow> error + stack" where
  "push n tok st = exec n (Push tok) st"

text \<open>
  \<open>Parser.convert\<close> on the tokens the matcher found, each a class and the matched string:
  push \<open>Start\<close>, every token, then \<open>End\<close>; pop the top and return its tree.
\<close>

fun pushTokens :: "nat \<Rightarrow> (token \<times> string) list \<Rightarrow> stack \<Rightarrow> error + stack" where
  "pushTokens n [] st = Inr st"
| "pushTokens n ((p, term) # ts) st =
     bind (construct p (Some term) None) (\<lambda>t. bind (push n t st) (pushTokens n ts))"

definition convert :: "nat \<Rightarrow> (token \<times> string) list \<Rightarrow> error + ast" where
  "convert n toks =
     bind (construct Start None None) (\<lambda>s.
     bind (push n s []) (\<lambda>st0.
     bind (pushTokens n toks st0) (\<lambda>st1.
     bind (construct End None None) (\<lambda>e.
     bind (push n e st1) (\<lambda>st2.
       case st2 of [] \<Rightarrow> Inl TypeError | tp # _ \<Rightarrow> tree tp)))))"
section \<open>JSON (AstObject.toJSON, AstNode.fromJSON, FuncExp.fromJSON, Parser.fromJSON)\<close>

text \<open>The static \<open>kind\<close> string of each class.\<close>

definition kindName :: "akind \<Rightarrow> string" where
  "kindName k =
     (case k of
        KAstNode \<Rightarrow> ''AstNode'' | KName \<Rightarrow> ''Name'' | KNum \<Rightarrow> ''Num''
      | KFuncName \<Rightarrow> ''FuncName'' | KOp \<Rightarrow> ''Op'' | KBop \<Rightarrow> ''Bop'' | KUop \<Rightarrow> ''Uop''
      | KRel \<Rightarrow> ''Rel'' | KMultiRel \<Rightarrow> ''MultiRel'' | KStackGroup \<Rightarrow> ''StackGroup''
      | KGroup \<Rightarrow> ''Group'' | KFuncApply \<Rightarrow> ''FuncApply'' | KFuncExp \<Rightarrow> ''FuncExp''
      | KVector \<Rightarrow> ''Vector'' | KSet \<Rightarrow> ''Set'')"

definition valueJSON :: "avalue \<Rightarrow> json" where
  "valueJSON v = (case v of VStr s \<Rightarrow> JStr s | VNum n \<Rightarrow> JNum n)"

fun sequence :: "(error + 'a) list \<Rightarrow> error + 'a list" where
  "sequence [] = Inr []"
| "sequence (x # xs) =
     (case x of
        Inl e \<Rightarrow> Inl e
      | Inr v \<Rightarrow> (case sequence xs of Inl e \<Rightarrow> Inl e | Inr vs \<Rightarrow> Inr (v # vs)))"

text \<open>
  \<open>toJSON\<close>: \<open>Object.assign({kind: this.kind}, this)\<close> copies the own properties; a node
  with children replaces \<open>childNodes\<close> by the children's JSON, a \<open>FuncExp\<close> also \<open>exp\<close> by
  its JSON (a \<open>TypeError\<close> without an \<open>exp\<close>); a leaf copies only.
\<close>

fun toJSON :: "ast \<Rightarrow> error + json" where
  "toJSON (Ast k v cs e ps) =
     (if isLeaf k then Inr (JObj ([(''kind'', JStr (kindName k)), (''value'', valueJSON v)] @ ps))
      else
        (case sequence (map toJSON cs) of
           Inl err \<Rightarrow> Inl err
         | Inr js \<Rightarrow>
             if k = KFuncExp then
               (case e of
                  None \<Rightarrow> Inl TypeError
                | Some x \<Rightarrow>
                    (case toJSON x of
                       Inl err \<Rightarrow> Inl err
                     | Inr jx \<Rightarrow>
                         Inr (JObj ([(''kind'', JStr (kindName k)), (''value'', valueJSON v),
                                     (''childNodes'', JArr js), (''exp'', jx)] @ ps))))
             else Inr (JObj ([(''kind'', JStr (kindName k)), (''value'', valueJSON v),
                              (''childNodes'', JArr js)] @ ps))))"

text \<open>
  \<open>Parser.fromJSON\<close> looks the class up under \<open>json.kind\<close>, removes \<open>kind\<close> and calls the
  class's \<open>fromJSON\<close>: \<open>FuncExp.fromJSON\<close> converts \<open>exp\<close> first, when it is truthy, then
  \<open>AstNode.fromJSON\<close> converts the \<open>childNodes\<close> in order, then \<open>AstObject.fromJSON\<close>
  assigns the properties to a new object of the class; the first error ends the call.  The
  model follows the objects whose \<open>value\<close> is a string or a number, whose nodes with
  children have a \<open>childNodes\<close> array and whose \<open>exp\<close>, when there is one, is an object;
  others are \<open>Unmodelled\<close>, as is a \<open>kind\<close> that is an array or an object.
\<close>

function fromJSON :: "(string \<times> akind) list \<Rightarrow> json \<Rightarrow> error + ast" where
  "fromJSON astMap j =
     (case j of
        JObj fs \<Rightarrow>
          (case map_of fs ''kind'' of
             Some (JStr kn) \<Rightarrow>
               (case getAstClass astMap kn of
                  Inl err \<Rightarrow> Inl err
                | Inr k \<Rightarrow>
                    (case map_of fs ''value'' of
                       None \<Rightarrow> Inl Unmodelled
                     | Some jv \<Rightarrow>
                         (case (case jv of JStr s \<Rightarrow> Some (VStr s) | JNum n \<Rightarrow> Some (VNum n)
                                         | _ \<Rightarrow> None) of
                            None \<Rightarrow> Inl Unmodelled
                          | Some v \<Rightarrow>
                              if isLeaf k then
                                (if map_of fs ''childNodes'' \<noteq> None then Inl TypeError
                                 else Inr (Ast k v [] None
                                             (filter (\<lambda>(n, _). n \<noteq> ''kind'' \<and> n \<noteq> ''value'') fs)))
                              else
                                (case (if k = KFuncExp then
                                         (case map_of fs ''exp'' of
                                            None \<Rightarrow> Inr None
                                          | Some (JObj xfs) \<Rightarrow>
                                              (case fromJSON astMap (JObj xfs) of
                                                 Inl err \<Rightarrow> Inl err
                                               | Inr x \<Rightarrow> Inr (Some x))
                                          | Some _ \<Rightarrow> Inl Unmodelled)
                                       else Inr None) of
                                   Inl err \<Rightarrow> Inl err
                                 | Inr e \<Rightarrow>
                                     (case map_of fs ''childNodes'' of
                                        Some (JArr xs) \<Rightarrow>
                                          (case sequence (map (fromJSON astMap) xs) of
                                             Inl err \<Rightarrow> Inl err
                                           | Inr cs \<Rightarrow>
                                               Inr (Ast k v cs e
                                                 (filter (\<lambda>(n, _). n \<noteq> ''kind'' \<and> n \<noteq> ''value'' \<and>
                                                                  n \<noteq> ''childNodes'' \<and>
                                                                  (e = None \<or> n \<noteq> ''exp'')) fs)))
                                      | _ \<Rightarrow> Inl Unmodelled)))))
           | None \<Rightarrow> Inl (Error ''No definition for AST class: undefined'')
           | Some (JArr xs) \<Rightarrow> Inl Unmodelled
           | Some (JObj m) \<Rightarrow> Inl Unmodelled
           | Some other \<Rightarrow> Inl (Error (''No definition for AST class: '' @ propString (Some other))))
      | JNull \<Rightarrow> Inl TypeError
      | JUndefined \<Rightarrow> Inl TypeError
      | _ \<Rightarrow> Inl (Error ''No definition for AST class: undefined''))"
  by pat_completeness auto

lemma size_lookup:
  "map_of fs k = Some v \<Longrightarrow> size v < Suc (size_list (size_prod (\<lambda>_. 0) size) fs)"
  by (induction fs) (auto split: if_splits)

lemma size_member: "x \<in> set xs \<Longrightarrow> size x < Suc (size_list size xs)"
  by (induction xs) auto

termination fromJSON
  apply (relation "measure (\<lambda>(m, j). size j)")
    apply simp
   apply (auto dest!: size_lookup size_member)
  done

declare fromJSON.simps [simp del]

section \<open>The pattern compiler (Parser.getPattern)\<close>

text \<open>
  The comparator that \<open>getNamePattern\<close> gives to \<open>sort\<close>:
  \<^verbatim>\<open>
    (a, b) => (a.length < b.length ? 1 : a.length > b.length ? -1 : a < b ? -1 : a > b ? -1 : 0)
  \<close>
\<close>

definition compareNames :: "string \<Rightarrow> string \<Rightarrow> int" where
  "compareNames a b =
     (if length a < length b then 1
      else if length a > length b then - 1
      else if a < b then - 1
      else if a > b then - 1
      else 0)"

text \<open>
  \<open>Array.prototype.sort\<close> belongs to the engine, not to the sources.  For a comparator
  that is not consistent the language leaves the resulting order to the implementation,
  so the sort is the parameter \<open>engineSort\<close> of \<open>getNamePattern\<close>: the function from the
  comparator and the array to the array that the engine's \<open>sort\<close> leaves.
\<close>

text \<open>
  The alternatives of the compiled matcher.  \<open>getNamePattern\<close> writes the names of more
  than one character, escaped, as alternatives in the sorted order, then one character
  class for the names of one character; a raw pattern is an alternative of its own.
\<close>

datatype alt = Lit string | CharClass string | RawPattern string

definition getNamePattern ::
  "((string \<Rightarrow> string \<Rightarrow> int) \<Rightarrow> string list \<Rightarrow> string list) \<Rightarrow> string list \<Rightarrow> alt list" where
  "getNamePattern engineSort NAMES =
     (let chars = filter (\<lambda>x. length x = 1) NAMES;
          names = engineSort compareNames (filter (\<lambda>x. length x > 1) NAMES)
      in map Lit names @ (if chars \<noteq> [] then [CharClass (concat chars)] else []))"

text \<open>
  \<open>getNamesAndPatterns\<close>: the names and the patterns of the registered classes by
  priority, in the order of registration; \<open>getPatternParts\<close>: for each priority in
  increasing order the group of its names, then one group for each of its patterns, each
  with the identifier of its class.  The priorities are sorted by the engine too, with
  the comparator \<open>(a, b) => a > b ? 1 : -1\<close> (\<open>comparePriorities\<close>); \<open>engineSortKeys\<close>
  is the engine's \<open>sort\<close> on numbers.
\<close>

definition comparePriorities :: "rat \<Rightarrow> rat \<Rightarrow> int" where
  "comparePriorities a b = (if a > b then 1 else - 1)"

fun addTo :: "rat \<Rightarrow> 'a list \<Rightarrow> (rat \<times> 'a list) list \<Rightarrow> (rat \<times> 'a list) list" where
  "addTo p xs [] = [(p, xs)]"
| "addTo p xs ((q, ys) # m) = (if p = q then (q, ys @ xs) # m else (q, ys) # addTo p xs m)"

definition getNames :: "(string \<times> token) list \<Rightarrow> (rat \<times> (string \<times> string) list) list" where
  "getNames parseTokens =
     foldl (\<lambda>m (ident, c). if token (trec c) \<noteq> []
                             then addTo (priority (trec c)) (map (\<lambda>n. (n, ident)) (token (trec c))) m
                             else m) [] parseTokens"

definition getPatterns :: "(string \<times> token) list \<Rightarrow> (rat \<times> (string \<times> string) list) list" where
  "getPatterns parseTokens =
     foldl (\<lambda>m (ident, c). case pattern (trec c) of
                               Some p \<Rightarrow> if p \<noteq> [] then addTo (priority (trec c)) [(ident, p)] m else m
                             | None \<Rightarrow> m) [] parseTokens"

datatype part = NamesPart "alt list" "(string \<times> string) list" | PatternPart string alt

definition getPatternParts ::
  "((string \<Rightarrow> string \<Rightarrow> int) \<Rightarrow> string list \<Rightarrow> string list) \<Rightarrow>
   ((rat \<Rightarrow> rat \<Rightarrow> int) \<Rightarrow> rat list \<Rightarrow> rat list) \<Rightarrow>
   (rat \<times> (string \<times> string) list) list \<Rightarrow> (rat \<times> (string \<times> string) list) list \<Rightarrow> part list" where
  "getPatternParts engineSort engineSortKeys NAMES PATTERNS =
     concat (map (\<lambda>i.
        (case map_of NAMES i of
           Some ns \<Rightarrow> [NamesPart (getNamePattern engineSort (map fst ns)) ns]
         | None \<Rightarrow> []) @
        (case map_of PATTERNS i of
           Some ps \<Rightarrow> map (\<lambda>(ident, p). PatternPart ident (RawPattern p)) ps
         | None \<Rightarrow> []))
       (engineSortKeys comparePriorities (remdups (map fst NAMES @ map fst PATTERNS))))"

definition getPattern ::
  "((string \<Rightarrow> string \<Rightarrow> int) \<Rightarrow> string list \<Rightarrow> string list) \<Rightarrow>
   ((rat \<Rightarrow> rat \<Rightarrow> int) \<Rightarrow> rat list \<Rightarrow> rat list) \<Rightarrow> (string \<times> token) list \<Rightarrow> part list" where
  "getPattern engineSort engineSortKeys parseTokens =
     getPatternParts engineSort engineSortKeys (getNames parseTokens) (getPatterns parseTokens)"

text \<open>The names of the classes of token/Standard.ts that have literal names, and two
  classes with patterns, in the order in which the module exports them.\<close>

definition Standard :: "(string \<times> token) list" where
  "Standard =
     [(''List'', ListOp), (''Plus'', Plus), (''Minus'', Minus), (''Multiply'', Multiply),
      (''Divide'', Divide), (''Power'', Power), (''Factorial'', Factorial), (''Parens'', Parens),
      (''Identifier'', Identifier), (''Numeric'', Numeric), (''Trig'', Trig),
      (''FunctionLetters'', FunctionLetters)]"

text \<open>The set braces of token/Sets.ts.\<close>

definition SetBraces :: token where
  "SetBraces = upd (\<lambda>r. r\<lparr> tkind := ''set'', token := [''{'', ''}''], close := [''}''],
                            allowEmpty := True, astClassFor := [(''Group'', ''Set'')] \<rparr>) Delimiter"

section \<open>Predicates used in the statements\<close>

text \<open>A node of another class than \<open>Num\<close>, or a \<open>Num\<close> node whose value is as its
  constructor stores it: a number, or the empty string for \<open>0\<close>.\<close>

definition numValue :: "ast \<Rightarrow> bool" where
  "numValue node =
     (kind node \<noteq> KNum \<or> (case nvalue node of VNum n \<Rightarrow> True | VStr s \<Rightarrow> s = []))"

text \<open>
  A node as the classes build it and as the registry \<open>astMap\<close> can find it again: the
  class of every node is registered under the node's kind, a leaf has no children, the
  \<open>FuncExp\<close> nodes and only they have an \<open>exp\<close>, and \<open>props\<close> holds none of the
  properties that the model keeps in fields of their own.
\<close>

fun registered :: "(string \<times> akind) list \<Rightarrow> ast \<Rightarrow> bool" where
  "registered astMap (Ast k v cs e ps) =
     (map_of astMap (kindName k) = Some k \<and>
      (if isLeaf k then cs = [] else list_all (registered astMap) cs) \<and>
      (case e of None \<Rightarrow> k \<noteq> KFuncExp | Some x \<Rightarrow> k = KFuncExp \<and> registered astMap x) \<and>
      list_all (\<lambda>(n, _). n \<noteq> ''kind'' \<and> n \<noteq> ''value'' \<and> n \<noteq> ''childNodes'' \<and> n \<noteq> ''exp'') ps)"

section \<open>Properties\<close>

subsection \<open>Sign fold and inverse functions\<close>

text \<open>
  C10.  The tree of a unary minus whose number-negation is enabled and whose only child
  is a \<open>Num\<close> node with a value greater than zero is that \<open>Num\<close> node with the value negated;
  in every other case (no or several children, another kind of child, negation disabled, a
  value that is not greater than zero, the zero that \<open>Num\<close> stores as the empty string) it
  is the token's own unary-operator node, with its children as they are.  The \<open>Num\<close>
  children hold what the constructor of \<open>Num\<close> stores (\<open>numValue\<close>); the children of
  other classes are arbitrary.
\<close>

theorem UnaryMinus_tree_sign_fold:
  assumes "cls (trec this) = CUnaryMinus"
      and "list_all numValue (childNodes (ast (trec this)))"
  shows "tree this =
           (case childNodes (ast (trec this)) of
              [num] \<Rightarrow>
                (case nvalue num of
                   VNum n \<Rightarrow>
                     if negateNumbers (trec this) \<and> kind num = KNum \<and> 0 < n
                     then Inr (Ast (kind num) (VNum (- n)) (childNodes num) (fexp num) (props num))
                     else Inr (ast (trec this))
                 | VStr s \<Rightarrow> Inr (ast (trec this)))
            | _ \<Rightarrow> Inr (ast (trec this)))"
  using assms
  by (auto simp: tree_def UnaryMinus_tree_def isast_def numValue_def
           split: list.splits avalue.splits)

theorem UnaryMinus_tree_sign_fold_witness:
  "cls (trec (upd (\<lambda>r. r\<lparr> ast := Ast KUop (VStr ''-'') [Ast KNum (VNum 3) [] None []] None [] \<rparr>)
                  UnaryMinus)) = CUnaryMinus \<and>
   tree (upd (\<lambda>r. r\<lparr> ast := Ast KUop (VStr ''-'') [Ast KNum (VNum 3) [] None []] None [] \<rparr>)
             UnaryMinus) = Inr (Ast KNum (VNum (- 3)) [] None [])"
proof -
  let ?t = "upd (\<lambda>r. r\<lparr> ast := Ast KUop (VStr ''-'') [Ast KNum (VNum 3) [] None []] None [] \<rparr>)
                UnaryMinus"
  have c: "cls (trec ?t) = CUnaryMinus"
    by (simp add: UnaryMinus_def UnaryOp_def Operator_def upd_def mk_def)
  have a: "ast (trec ?t) = Ast KUop (VStr ''-'') [Ast KNum (VNum 3) [] None []] None []"
    by (simp add: UnaryMinus_def UnaryOp_def Operator_def upd_def mk_def)
  have n: "negateNumbers (trec ?t)"
    by (simp add: UnaryMinus_def UnaryOp_def Operator_def upd_def mk_def)
  have v: "list_all numValue (childNodes (ast (trec ?t)))"
    by (simp add: a numValue_def)
  show ?thesis
    using UnaryMinus_tree_sign_fold [OF c v] c n by (simp add: a)
qed

text \<open>The parser at \<open>-3\<close>, \<open>-0\<close> and \<open>-x\<close>: the first folds, the others do not.\<close>

lemma sign_fold_examples:
  "convert 20 [(Minus, ''-''), (Numeric, ''3'')] = Inr (Ast KNum (VNum (- 3)) [] None [])"
  "convert 20 [(Minus, ''-''), (Numeric, ''0'')] =
     Inr (Ast KUop (VStr ''-'') [Ast KNum (VStr '''') [] None []] None [(''precedence'', JNum 3)])"
  "convert 20 [(Minus, ''-''), (Identifier, ''x'')] =
     Inr (Ast KUop (VStr ''-'') [Ast KName (VStr ''x'') [] None []] None [(''precedence'', JNum 3)])"
  by code_simp+

text \<open>
  C9.  For a power token with at least two children whose exponent can be stringified:
  when the token carries a function-application descriptor, its first child is a
  \<open>FuncName\<close> node whose \<open>inverse\<close> is truthy (a non-empty name) and the exponent
  stringifies to \<open>-1\<close>, the tree is the \<open>FuncName\<close> node with the inverse name as its
  value; in every other case, whatever the first child is, it is the token's own power
  node.
\<close>

theorem Power_tree_inverse:
  assumes "cls (trec this) = CPower"
      and "childNodes (ast (trec this)) = f # e # rest"
      and "toString e = Some s"
  shows "tree this =
           (if applyData (trec this) \<noteq> None \<and> kind f = KFuncName \<and>
               jsTruthy (getProp f ''inverse'') \<and> s = ''-1''
            then Inr (Ast KFuncName (VStr (propString (getProp f ''inverse'')))
                        (childNodes f) (fexp f) (props f))
            else Inr (ast (trec this)))"
  using assms
  by (auto simp: tree_def Power_tree_def isast_def)

theorem Power_tree_inverse_witness:
  "tree (upd (\<lambda>r. r\<lparr> applyData := Some \<lparr> args = 1, requireArgument = True, autoApply = True \<rparr>,
                      ast := Ast KBop (VStr ''^'')
                               [Ast KFuncName (VStr ''sin'') [] None [(''inverse'', JStr ''asin'')],
                                Ast KNum (VNum (- 1)) [] None []] None [] \<rparr>) Power)
     = Inr (Ast KFuncName (VStr ''asin'') [] None [(''inverse'', JStr ''asin'')])"
proof -
  let ?f = "Ast KFuncName (VStr ''sin'') [] None [(''inverse'', JStr ''asin'')]"
  let ?e = "Ast KNum (VNum (- 1)) [] None []"
  let ?t = "upd (\<lambda>r. r\<lparr> applyData := Some \<lparr> args = 1, requireArgument = True, autoApply = True \<rparr>,
                         ast := Ast KBop (VStr ''^'') [?f, ?e] None [] \<rparr>) Power"
  have c: "cls (trec ?t) = CPower"
    by (simp add: Power_def BinaryOp_def Operator_def upd_def mk_def)
  have k: "childNodes (ast (trec ?t)) = ?f # ?e # []"
    by (simp add: Power_def BinaryOp_def Operator_def upd_def mk_def)
  have d: "applyData (trec ?t) \<noteq> None"
    by (simp add: Power_def BinaryOp_def Operator_def upd_def mk_def)
  have s: "toString ?e = Some ''-1''"
    by code_simp
  have i: "getProp ?f ''inverse'' = Some (JStr ''asin'')"
    by (simp add: getProp_def)
  show ?thesis
    using Power_tree_inverse [OF c k s] d by (simp add: i jsTruthy_def propString_def)
qed

text \<open>The parser at \<open>sin^-1 x\<close> builds no power node, and does at \<open>x^-1\<close>.\<close>

lemma inverse_examples:
  "convert 20 [(Trig, ''sin''), (Power, ''^''), (Minus, ''-''), (Numeric, ''1''), (Identifier, ''x'')] =
     Inr (Ast KFuncApply (VStr ''asin'') [Ast KName (VStr ''x'') [] None []] None
            [(''associativity'', JStr ''right''), (''precedence'', JNum (7 / 2)),
             (''isComma'', JBool False), (''equalParens'', JBool False), (''opString'', JNull),
             (''autoApply'', JBool True)])"
  "convert 20 [(Identifier, ''x''), (Power, ''^''), (Minus, ''-''), (Numeric, ''1'')] =
     Inr (Ast KBop (VStr ''^'')
            [Ast KName (VStr ''x'') [] None [], Ast KNum (VNum (- 1)) [] None []] None
            [(''associativity'', JStr ''right''), (''precedence'', JNum 4),
             (''opString'', JStr ''^'')])"
  by code_simp+

subsection \<open>Parentheses by precedence\<close>

text \<open>
  C3 (amended).  \<open>addParens(node, threshold, includeOnEqual)\<close> returns the node's text in
  parentheses if and only if the node has a \<open>precedence\<close> property whose number is less than
  the threshold, or equal to it with \<open>includeOnEqual\<close> set; a node without the property
  keeps its text.  The number of a \<open>precedence\<close> that is \<open>null\<close> or a boolean is the one
  the comparison converts it to, which is never identical to the threshold, and
  \<open>undefined\<close> is no number.  (A \<open>precedence\<close> that is a string, an array or an object, which
  no class stores, is not followed.)  The name and number nodes that the constructors
  build have no such property and are never wrapped.  The parser turns \<open>(3+4)*2\<close> into a
  product whose first child is the sum, and the string of the product has the sum in
  parentheses.
\<close>

theorem addParens_by_precedence:
  "((case getProp node ''precedence'' of None \<Rightarrow> True | Some p \<Rightarrow> numericValue p) \<longrightarrow>
    addParens node threshold includeOnEqual =
     (case getProp node ''precedence'' of
        None \<Rightarrow> toString node
      | Some p \<Rightarrow>
          map_option
            (\<lambda>text. if (case p of
                           JNum prec \<Rightarrow> prec < threshold \<or> (includeOnEqual \<and> prec = threshold)
                         | JNull \<Rightarrow> 0 < threshold
                         | JBool b \<Rightarrow> (if b then 1 else 0) < threshold
                         | _ \<Rightarrow> False)
                    then ''('' @ text @ '')'' else text)
            (toString node)))
   \<and> addParens (projr (newAst KName v)) threshold includeOnEqual = Some v
   \<and> addParens (projr (newAst KNum v)) threshold includeOnEqual = toString (projr (newAst KNum v))
   \<and> convert 20 [(Parens, ''(''), (Numeric, ''3''), (Plus, ''+''), (Numeric, ''4''), (Parens, '')''),
                  (Multiply, ''*''), (Numeric, ''2'')] =
       Inr (Ast KBop (VStr ''*'')
              [Ast KBop (VStr ''+'') [Ast KNum (VNum 3) [] None [], Ast KNum (VNum 4) [] None []]
                 None [(''precedence'', JNum 1)],
               Ast KNum (VNum 2) [] None []]
              None [(''precedence'', JNum 2)])
   \<and> toString (Ast KBop (VStr ''*'')
              [Ast KBop (VStr ''+'') [Ast KNum (VNum 3) [] None [], Ast KNum (VNum 4) [] None []]
                 None [(''precedence'', JNum 1)],
               Ast KNum (VNum 2) [] None []]
              None [(''precedence'', JNum 2)]) = Some ''(3 + 4) * 2''"
proof -
  have general: "(case getProp node ''precedence'' of None \<Rightarrow> True | Some p \<Rightarrow> numericValue p) \<longrightarrow>
    addParens node threshold includeOnEqual =
     (case getProp node ''precedence'' of
        None \<Rightarrow> toString node
      | Some p \<Rightarrow>
          map_option
            (\<lambda>text. if (case p of
                           JNum prec \<Rightarrow> prec < threshold \<or> (includeOnEqual \<and> prec = threshold)
                         | JNull \<Rightarrow> 0 < threshold
                         | JBool b \<Rightarrow> (if b then 1 else 0) < threshold
                         | _ \<Rightarrow> False)
                    then ''('' @ text @ '')'' else text)
            (toString node))"
    by (cases "toString node")
       (auto simp: addParens_def parens_def parensAt_def needsParensAt_def lessThan_js_def
                   strictEquals_def ToNumber_def numericValue_def
             split: option.splits json.splits)
  have name: "addParens (projr (newAst KName v)) threshold includeOnEqual = Some v"
    by (simp add: newAst_def isGroupKind_def addParens_def parens_def parensAt_def
                  needsParensAt_def getProp_def proto_def toString.simps isLeaf_def valueString_def)
  have num: "addParens (projr (newAst KNum v)) threshold includeOnEqual =
               toString (projr (newAst KNum v))"
    by (cases "toString (projr (newAst KNum v))")
       (auto simp: newAst_def addParens_def parens_def parensAt_def needsParensAt_def getProp_def
                   proto_def
             split: option.splits)
  have parse: "convert 20 [(Parens, ''(''), (Numeric, ''3''), (Plus, ''+''), (Numeric, ''4''),
                           (Parens, '')''), (Multiply, ''*''), (Numeric, ''2'')] =
       Inr (Ast KBop (VStr ''*'')
              [Ast KBop (VStr ''+'') [Ast KNum (VNum 3) [] None [], Ast KNum (VNum 4) [] None []]
                 None [(''precedence'', JNum 1)],
               Ast KNum (VNum 2) [] None []]
              None [(''precedence'', JNum 2)])"
    by code_simp
  have str: "toString (Ast KBop (VStr ''*'')
              [Ast KBop (VStr ''+'') [Ast KNum (VNum 3) [] None [], Ast KNum (VNum 4) [] None []]
                 None [(''precedence'', JNum 1)],
               Ast KNum (VNum 2) [] None []]
              None [(''precedence'', JNum 2)]) = Some ''(3 + 4) * 2''"
    by code_simp
  show ?thesis
    using general name num parse str by blast
qed

text \<open>The sum of \<open>(3+4)*2\<close>, of precedence \<open>1\<close>, at the threshold \<open>2\<close> of the product.\<close>

theorem addParens_by_precedence_witness:
  "addParens (Ast KBop (VStr ''+'') [Ast KNum (VNum 3) [] None [], Ast KNum (VNum 4) [] None []]
                None [(''precedence'', JNum 1)]) 2 False = Some ''(3 + 4)''"
proof -
  let ?n = "Ast KBop (VStr ''+'') [Ast KNum (VNum 3) [] None [], Ast KNum (VNum 4) [] None []]
              None [(''precedence'', JNum 1)]"
  have p: "getProp ?n ''precedence'' = Some (JNum 1)"
    by (simp add: getProp_def)
  have s: "toString ?n = Some ''3 + 4''"
    by code_simp
  have h: "(case getProp ?n ''precedence'' of None \<Rightarrow> True | Some p \<Rightarrow> numericValue p)"
    by (simp add: p numericValue_def)
  from addParens_by_precedence [of ?n 2 False] h
  have "addParens ?n 2 False =
     (case getProp ?n ''precedence'' of
        None \<Rightarrow> toString ?n
      | Some p \<Rightarrow>
          map_option
            (\<lambda>text. if (case p of
                           JNum prec \<Rightarrow> prec < 2 \<or> (False \<and> prec = 2)
                         | JNull \<Rightarrow> 0 < (2::rat)
                         | JBool b \<Rightarrow> (if b then 1 else 0) < (2::rat)
                         | _ \<Rightarrow> False)
                    then ''('' @ text @ '')'' else text)
            (toString ?n))"
    by blast
  then show ?thesis
    by (simp add: p s)
qed

text \<open>
  The claim as stated fails for resolved function applications: the parser accepts
  \<open>(sin x)^2\<close>, the first child of the power node is the function application of
  \<open>sin\<close>, which has the own property \<open>precedence\<close> with the value \<open>3.5\<close>, and both
  \<open>addParens\<close> at the threshold \<open>4\<close> and the string of the power node wrap it.
\<close>

theorem addParens_wraps_function_application:
  "convert 20 [(Parens, ''(''), (Trig, ''sin''), (Identifier, ''x''), (Parens, '')''),
               (Power, ''^''), (Numeric, ''2'')] =
     Inr (Ast KBop (VStr ''^'')
            [Ast KFuncApply (VStr ''sin'') [Ast KName (VStr ''x'') [] None []] None
               [(''associativity'', JStr ''right''), (''precedence'', JNum (7 / 2)),
                (''isComma'', JBool False), (''equalParens'', JBool False), (''opString'', JNull),
                (''autoApply'', JBool True)],
             Ast KNum (VNum 2) [] None []]
            None
            [(''associativity'', JStr ''right''), (''precedence'', JNum 4), (''opString'', JStr ''^'')])
   \<and> addParens
         (Ast KFuncApply (VStr ''sin'') [Ast KName (VStr ''x'') [] None []] None
            [(''associativity'', JStr ''right''), (''precedence'', JNum (7 / 2)),
             (''isComma'', JBool False), (''equalParens'', JBool False), (''opString'', JNull),
             (''autoApply'', JBool True)])
         4 False = Some ''(sin(x))''
   \<and> toString
         (Ast KBop (VStr ''^'')
            [Ast KFuncApply (VStr ''sin'') [Ast KName (VStr ''x'') [] None []] None
               [(''associativity'', JStr ''right''), (''precedence'', JNum (7 / 2)),
                (''isComma'', JBool False), (''equalParens'', JBool False), (''opString'', JNull),
                (''autoApply'', JBool True)],
             Ast KNum (VNum 2) [] None []]
            None
            [(''associativity'', JStr ''right''), (''precedence'', JNum 4), (''opString'', JStr ''^'')])
       = Some ''(sin(x))^2''"
  by code_simp

subsection \<open>Relation chains\<close>

text \<open>
  The tree of a relation token: its own relation node while it has at most two
  operands, else a multi-relation node with the operands, the list of symbols and the
  output strings of the token.
\<close>

lemma Relation_tree_chain:
  assumes "cls (trec this) = CRelation"
  shows "tree this =
           (if length (childNodes (ast (trec this))) \<le> 2 then Inr (ast (trec this))
            else Inr (Ast KMultiRel
                        (VStr (case map_of (combined (trec this)) (optype (trec this)) of
                                 Some c \<Rightarrow> if c \<noteq> [] then c else optype (trec this)
                               | None \<Rightarrow> optype (trec this)))
                        (childNodes (ast (trec this))) None
                        ((''relations'', JArr (map JStr (relList (trec this)))) #
                         (if opStrings (trec this) \<noteq> []
                          then [(''opStrings'', JObj (map (\<lambda>(k, s). (k, JStr s)) (opStrings (trec this))))]
                          else []))))"
  using assms by (simp add: tree_def Relation_tree_def newMultiRel_def Let_def)

text \<open>The parser at \<open>x < y <= z\<close>, with \<open><\<close> read by the look-ahead class for angles
  and by the class of the strict inequalities, and the string of the result.\<close>

lemma chain_example:
  "convert 20 [(Identifier, ''x''), (InequalitiesWithVectors, ''<''), (Identifier, ''y''),
               (WeakInequalities, ''<=''), (Identifier, ''z'')] =
     Inr (Ast KMultiRel (VStr ''<'')
            [Ast KName (VStr ''x'') [] None [], Ast KName (VStr ''y'') [] None [],
             Ast KName (VStr ''z'') [] None []]
            None [(''relations'', JArr [JStr ''<'', JStr ''<=''])])"
  "convert 20 [(Identifier, ''x''), (StrictInequalities, ''<''), (Identifier, ''y''),
               (WeakInequalities, ''<=''), (Identifier, ''z'')] =
     Inr (Ast KMultiRel (VStr ''<'')
            [Ast KName (VStr ''x'') [] None [], Ast KName (VStr ''y'') [] None [],
             Ast KName (VStr ''z'') [] None []]
            None [(''relations'', JArr [JStr ''<'', JStr ''<=''])])"
  "toString (Ast KMultiRel (VStr ''<'')
            [Ast KName (VStr ''x'') [] None [], Ast KName (VStr ''y'') [] None [],
             Ast KName (VStr ''z'') [] None []]
            None [(''relations'', JArr [JStr ''<'', JStr ''<=''])]) = Some ''x < y <= z''"
  "convert 20 [(Identifier, ''x''), (StrictInequalities, ''<''), (Identifier, ''y'')] =
     Inr (Ast KRel (VStr ''<'')
            [Ast KName (VStr ''x'') [] None [], Ast KName (VStr ''y'') [] None []]
            None [(''precedence'', JNum (3 / 4))])"
  by code_simp+

text \<open>
  C6.  A relation at the end of the input has no right operand.  When it fuses with the
  chain before it, the parser reports no missing operand: for \<open>x <= y <= z <=\<close> the
  result is a multi-relation node with three operands and three symbols, one more than
  there are adjacent pairs.  (An operator that does not fuse is refused there:
  \<open>x - y -\<close> is the error \<open>Missing operand following -\<close>.)
\<close>

theorem trailing_relation_extra_symbol:
  "convert 20 [(Identifier, ''x''), (WeakInequalities, ''<=''), (Identifier, ''y''),
               (WeakInequalities, ''<=''), (Identifier, ''z''), (WeakInequalities, ''<='')] =
     Inr (Ast KMultiRel (VStr ''<'')
            [Ast KName (VStr ''x'') [] None [], Ast KName (VStr ''y'') [] None [],
             Ast KName (VStr ''z'') [] None []]
            None
            [(''relations'', JArr [JStr ''<='', JStr ''<='', JStr ''<='']),
             (''opStrings'',
              JObj [(''<='', JStr [CHR '' '', CHR 0xE2, CHR 0x89, CHR 0xA4, CHR '' '']),
                    (''>='', JStr [CHR '' '', CHR 0xE2, CHR 0x89, CHR 0xA5, CHR '' ''])])])
   \<and> convert 20 [(Identifier, ''x''), (Minus, ''-''), (Identifier, ''y''), (Minus, ''-'')] =
       Inl (Error ''Missing operand following -'')"
  by code_simp

subsection \<open>The order of the names in the matcher\<close>

text \<open>
  C7.  The comparator that \<open>getNamePattern\<close> gives to \<open>sort\<close> answers \<open>-1\<close> for two
  different names of one length in either order: it tells the sort of each of them that
  it comes before the other, and does not order them lexicographically.  So it is for
  \<open>cos\<close> and \<open>sin\<close> of the class \<open>Trig\<close>, of which \<open>cos\<close> is the lexicographically
  earlier: asked whether \<open>sin\<close> comes before \<open>cos\<close>, the comparator answers \<open>-1\<close>, yes.
  The order that results is the engine's choice.
\<close>

theorem equal_length_names_not_lexicographic:
  "(length a = length b \<and> a \<noteq> b \<longrightarrow> compareNames a b = - 1 \<and> compareNames b a = - 1)
   \<and> ''cos'' \<in> set (token (trec Trig)) \<and> ''sin'' \<in> set (token (trec Trig))
   \<and> ''cos'' < ''sin'' \<and> compareNames ''sin'' ''cos'' = - 1"
proof -
  have general: "length a = length b \<and> a \<noteq> b \<longrightarrow>
                   compareNames a b = - 1 \<and> compareNames b a = - 1"
    by (auto simp: compareNames_def)
  have trig: "''cos'' \<in> set (token (trec Trig)) \<and> ''sin'' \<in> set (token (trec Trig))"
    by code_simp
  have order: "''cos'' < ''sin'' \<and> compareNames ''sin'' ''cos'' = - 1"
    by code_simp
  from general trig order show ?thesis by blast
qed

theorem equal_length_names_not_lexicographic_witness:
  "compareNames ''cos'' ''sin'' = - 1 \<and> compareNames ''sin'' ''cos'' = - 1"
proof -
  have "length ''cos'' = length ''sin'' \<and> ''cos'' \<noteq> ''sin''" by simp
  with equal_length_names_not_lexicographic [of "''cos''" "''sin''"] show ?thesis by blast
qed

text \<open>Names of different lengths are compared consistently: the longer one is put first.\<close>

lemma compareNames_longer_first:
  "length a > length b \<Longrightarrow> compareNames a b = - 1 \<and> compareNames b a = 1"
  by (simp add: compareNames_def)

subsection \<open>The push protocol\<close>

text \<open>What the default handlers answer.\<close>

lemma followedBy_default:
  "cls (trec tp) \<noteq> CApplyPending \<Longrightarrow> cls (trec tp) \<noteq> CLookAhead \<Longrightarrow> cls (trec tp) \<noteq> CAngle \<Longrightarrow>
   followedBy rec tp tok st = Inr (None, tok, st)"
  by (cases "cls (trec tp)") (simp_all add: followedBy_def)

lemma follows_default: "cls (trec tok) = CToken \<Longrightarrow> follows rec tok st = Inr ([tok], st)"
  by (simp add: follows_def)

text \<open>
  C1 (amended).  \<open>Stack.push\<close> with the handlers \<open>fb\<close> (\<open>followedBy\<close>) and \<open>fl\<close>
  (\<open>follows\<close>): on a stack with a top, a list from the top's \<open>followedBy\<close> is all that is
  pushed, in order, on the stack as that handler left it, and \<open>follows\<close> is not asked; after
  \<open>null\<close>, and on an empty stack, the list from the new token's \<open>follows\<close> is pushed on the
  stack as the handlers left it.  \<open>Stack.push\<close> itself removes nothing: the old top stays
  unless a handler popped it.  The engine's push is this protocol with the handlers of the
  token classes, whose defaults decline (\<open>followedBy\<close>) and return the token alone
  (\<open>follows\<close>), so that with both defaults the new token lands on the old top.
\<close>

theorem Stack_push_protocol:
  "(fb tp tok (tp # rest) = Inr (Some items, tok1, st1) \<longrightarrow>
      Stack_push fb fl tok (tp # rest) = Inr (rev items @ st1))
   \<and> (fb tp tok (tp # rest) = Inr (None, tok1, st1) \<longrightarrow> fl tok1 st1 = Inr (items, st2) \<longrightarrow>
      Stack_push fb fl tok (tp # rest) = Inr (rev items @ st2))
   \<and> (fl tok [] = Inr (items, st1) \<longrightarrow> Stack_push fb fl tok [] = Inr (rev items @ st1))
   \<and> push (Suc n) tok st = Stack_push (followedBy (exec n)) (follows (exec n)) tok st
   \<and> (cls (trec tp) \<noteq> CApplyPending \<and> cls (trec tp) \<noteq> CLookAhead \<and> cls (trec tp) \<noteq> CAngle \<and>
      cls (trec tok) = CToken \<longrightarrow> push (Suc n) tok (tp # rest) = Inr (tok # tp # rest))"
  by (auto simp: Stack_push_def bind_def pushItems_def push_def followedBy_default follows_default)

theorem Stack_push_protocol_witness:
  "push 1 (mk TokenBase) [projr (construct Start None None)] =
     Inr [mk TokenBase, projr (construct Start None None)]"
proof -
  have a: "cls (trec (projr (construct Start None None))) \<noteq> CApplyPending"
          "cls (trec (projr (construct Start None None))) \<noteq> CLookAhead"
          "cls (trec (projr (construct Start None None))) \<noteq> CAngle"
    by code_simp+
  have b: "cls (trec (mk TokenBase)) = CToken"
    by (simp add: mk_def TokenBase_def)
  have "push (Suc 0) (mk TokenBase) [projr (construct Start None None)] =
          Inr [mk TokenBase, projr (construct Start None None)]"
    using Stack_push_protocol [of _ "projr (construct Start None None)" "mk TokenBase" "[]" _ _ _ _ _ 0]
          a b
    by blast
  then show ?thesis
    by (simp only: One_nat_def)
qed

text \<open>
  The claim as stated fails where the top answers with a list and stays on the stack
  without being in it.  An angle look-ahead above \<open>x\<close> takes the operand \<open>y\<close>: its
  \<open>followedBy\<close> saves \<open>y\<close> and returns the empty list, and after the push the look-ahead
  is still the top of the stack.
\<close>

theorem lookahead_stays_without_being_listed:
  "followedBy (exec 5)
     (projr (construct InequalitiesWithVectors (Some ''<'') None))
     (projr (construct Identifier (Some ''y'') None))
     [projr (construct InequalitiesWithVectors (Some ''<'') None),
      projr (construct Identifier (Some ''x'') None),
      projr (construct Start None None)]
   = Inr (Some [], projr (construct Identifier (Some ''y'') None),
          [setSaved [projr (construct Identifier (Some ''y'') None)]
             (projr (construct InequalitiesWithVectors (Some ''<'') None)),
           projr (construct Identifier (Some ''x'') None),
           projr (construct Start None None)])
   \<and> push 6 (projr (construct Identifier (Some ''y'') None))
       [projr (construct InequalitiesWithVectors (Some ''<'') None),
        projr (construct Identifier (Some ''x'') None),
        projr (construct Start None None)]
     = Inr [setSaved [projr (construct Identifier (Some ''y'') None)]
              (projr (construct InequalitiesWithVectors (Some ''<'') None)),
            projr (construct Identifier (Some ''x'') None),
            projr (construct Start None None)]"
  by code_simp

subsection \<open>Closing delimiters\<close>

text \<open>
  C8.  A close delimiter that is pushed runs the loop that asks the top of the stack to
  close against it, again and again until one accepts.  A delimiter on the stack that the
  closer does not close ends the parse with an error: the start delimiter with
  \<open>Missing open delimiter\<close>, any other delimiter with \<open>Missing close delimiter\<close> when the
  closer is the end delimiter and with \<open>Mismatched delimiters\<close> otherwise; an empty stack
  with \<open>Extra close delimiter\<close>.  The inputs \<open>(x,y\<close>, \<open>)\<close> and \<open>(x}\<close> end so, and no AST
  is returned.
\<close>

theorem close_delimiter_errors:
  "(isa CDelimiter this \<and> isClose (trec this) = Some True \<longrightarrow>
      follows rec this st = bind (rec (Close this) st) (\<lambda>st1. Inr ([], st1)))
   \<and> exec (Suc n) (Close this) (tp # rest) =
       bind (groupTop (exec n) tp this (tp # rest))
         (\<lambda>(closed, st1). if closed then Inr st1 else exec n (Close this) st1)
   \<and> exec (Suc n) (Close this) [] = Inl (Error (''Extra close delimiter: '' @ tvalue (trec this)))
   \<and> (isa CDelimiter tp \<and> \<not> isClosedBy tp this \<longrightarrow>
      groupTop rec tp this st =
        Inl (Error (if isa CStart tp
                    then ''Missing open delimiter for '' @ quoted (tvalue (trec this))
                    else if isa CEnd this
                    then ''Missing close delimiter for '' @ quoted (tvalue (trec tp))
                    else ''Mismatched delimiters: '' @ quoted (tvalue (trec tp)) @ '' and '' @
                         quoted (tvalue (trec this)))))
   \<and> convert 20 [(Parens, ''(''), (Identifier, ''x''), (ListOp, '',''), (Identifier, ''y'')] =
       Inl (Error (''Missing close delimiter for '' @ quoted ''(''))
   \<and> convert 20 [(Parens, '')'')] = Inl (Error (''Missing open delimiter for '' @ quoted '')''))
   \<and> convert 20 [(Parens, ''(''), (Identifier, ''x''), (SetBraces, ''}'')] =
       Inl (Error (''Mismatched delimiters: '' @ quoted ''('' @ '' and '' @ quoted ''}''))"
proof -
  have a: "isa CDelimiter this \<and> isClose (trec this) = Some True \<longrightarrow>
      follows rec this st = bind (rec (Close this) st) (\<lambda>st1. Inr ([], st1))"
    by (cases "cls (trec this)")
       (auto simp: isa_def superclasses_def follows_def Delimiter_follows_def)
  have b: "exec (Suc n) (Close this) (tp # rest) =
       bind (groupTop (exec n) tp this (tp # rest))
         (\<lambda>(closed, st1). if closed then Inr st1 else exec n (Close this) st1)"
    by (simp add: closeStep_def)
  have c: "exec (Suc n) (Close this) [] = Inl (Error (''Extra close delimiter: '' @ tvalue (trec this)))"
    by (simp add: closeStep_def)
  have d: "isa CDelimiter tp \<and> \<not> isClosedBy tp this \<longrightarrow>
      groupTop rec tp this st =
        Inl (Error (if isa CStart tp
                    then ''Missing open delimiter for '' @ quoted (tvalue (trec this))
                    else if isa CEnd this
                    then ''Missing close delimiter for '' @ quoted (tvalue (trec tp))
                    else ''Mismatched delimiters: '' @ quoted (tvalue (trec tp)) @ '' and '' @
                         quoted (tvalue (trec this))))"
    by (cases "cls (trec tp)")
       (auto simp: isa_def superclasses_def groupTop_def Delimiter_group_def)
  have e: "convert 20 [(Parens, ''(''), (Identifier, ''x''), (ListOp, '',''), (Identifier, ''y'')] =
       Inl (Error (''Missing close delimiter for '' @ quoted ''(''))"
    by code_simp
  have f: "convert 20 [(Parens, '')'')] = Inl (Error (''Missing open delimiter for '' @ quoted '')''))"
    by code_simp
  have g: "convert 20 [(Parens, ''(''), (Identifier, ''x''), (SetBraces, ''}'')] =
       Inl (Error (''Mismatched delimiters: '' @ quoted ''('' @ '' and '' @ quoted ''}''))"
    by code_simp
  show ?thesis
    using a b c d e f g by blast
qed

theorem close_delimiter_errors_witness:
  "groupTop (exec 3) (projr (construct Start None None)) (projr (construct Parens (Some '')'') None))
     [projr (construct Start None None)] =
   Inl (Error (''Missing open delimiter for '' @ quoted '')''))"
proof -
  let ?s = "projr (construct Start None None)"
  let ?p = "projr (construct Parens (Some '')'') None)"
  have h: "isa CDelimiter ?s" "\<not> isClosedBy ?s ?p" "isa CStart ?s" "tvalue (trec ?p) = '')''"
    by code_simp+
  show ?thesis
    using close_delimiter_errors [of ?p "exec 3" "[?s]" 0 ?s "[]"] h by simp
qed

subsection \<open>Precedence and fusion\<close>

text \<open>Appending a child changes neither the class, the value nor the type of a token.\<close>

lemma saveFunction_keeps:
  "saveFunction this tok = Inr t \<Longrightarrow>
   cls (trec t) = cls (trec this) \<and> tvalue (trec t) = tvalue (trec this) \<and>
   optype (trec t) = optype (trec this) \<and> relList (trec t) = relList (trec this) \<and>
   associativity (trec t) = associativity (trec this)"
  by (cases this) (auto simp: saveFunction_def upd_def split: option.splits if_splits)

lemma append_pure_keeps:
  assumes "append_pure this tok = Inr t"
  shows "cls (trec t) = cls (trec this) \<and> tvalue (trec t) = tvalue (trec this) \<and>
         optype (trec t) = optype (trec this) \<and> relList (trec t) = relList (trec this) \<and>
         associativity (trec t) = associativity (trec this)"
proof -
  have tok_append: "\<And>u. Token_append this tok = Inr u \<Longrightarrow>
      cls (trec u) = cls (trec this) \<and> tvalue (trec u) = tvalue (trec this) \<and>
      optype (trec u) = optype (trec this) \<and> relList (trec u) = relList (trec this) \<and>
      associativity (trec u) = associativity (trec this)"
  proof -
    fix u assume "Token_append this tok = Inr u"
    then obtain a where s: "saveFunction (upd (\<lambda>r. r\<lparr> ast := ast_append (ast r) a \<rparr>) this) tok = Inr u"
      by (auto simp: Token_append_def bind_def split: sum.splits)
    from saveFunction_keeps [OF s] show
      "cls (trec u) = cls (trec this) \<and> tvalue (trec u) = tvalue (trec this) \<and>
       optype (trec u) = optype (trec this) \<and> relList (trec u) = relList (trec this) \<and>
       associativity (trec u) = associativity (trec this)"
      by (cases this) (simp add: upd_def)
  qed
  have apply_append: "\<And>u. ApplyOp_append this tok = Inr u \<Longrightarrow>
      cls (trec u) = cls (trec this) \<and> tvalue (trec u) = tvalue (trec this) \<and>
      optype (trec u) = optype (trec this) \<and> relList (trec u) = relList (trec this) \<and>
      associativity (trec u) = associativity (trec this)"
  proof -
    fix u assume a: "ApplyOp_append this tok = Inr u"
    show "cls (trec u) = cls (trec this) \<and> tvalue (trec u) = tvalue (trec this) \<and>
          optype (trec u) = optype (trec this) \<and> relList (trec u) = relList (trec this) \<and>
          associativity (trec u) = associativity (trec this)"
    proof (cases "childNodes (ast (trec this)) \<noteq> [] \<and> isa CGroup tok \<and> isApply (trec tok)")
      case True
      with a show ?thesis
        by (cases this)
           (auto simp: ApplyOp_append_def bind_def upd_def split: sum.splits option.splits if_splits)
    next
      case False
      with a have "Token_append this tok = Inr u"
        by (auto simp: ApplyOp_append_def)
      then show ?thesis by (rule tok_append)
    qed
  qed
  from assms show ?thesis
    by (cases "cls (trec this)") (auto simp: append_pure_def dest: tok_append apply_append)
qed

text \<open>The three calls of \<open>exec\<close>.\<close>

lemma exec_Append: "exec (Suc n) (Append t) st = appendTop (exec n) t st"
  by simp

lemma exec_Push: "exec n (Push t) st = push n t st"
  by (simp add: push_def)

text \<open>An operand on the top of the stack declines every following token.\<close>

lemma operand_declines: "isa COperand tp \<Longrightarrow> followedBy rec tp tok st = Inr (None, tok, st)"
  by (cases "cls (trec tp)") (auto simp: isa_def superclasses_def followedBy_def)

lemma operand_tree: "isa COperand tp \<Longrightarrow> tree tp = Inr (ast (trec tp))"
  by (cases "cls (trec tp)") (auto simp: isa_def superclasses_def tree_def)

lemma ast_append_plain:
  "\<not> isLeaf (kind A) \<Longrightarrow> \<not> isGroupKind (kind A) \<Longrightarrow>
   ast_append A c = Ast (kind A) (nvalue A) (childNodes A @ [c]) (fexp A) (props A)"
  by (cases A) (simp add: ast_append_def AstObject_append_def)

lemma foldl_ast_append:
  "\<not> isLeaf (kind A) \<Longrightarrow> \<not> isGroupKind (kind A) \<Longrightarrow>
   foldl ast_append A xs = Ast (kind A) (nvalue A) (childNodes A @ xs) (fexp A) (props A)"
proof (induction xs arbitrary: A)
  case Nil
  then show ?case by (cases A) simp
next
  case (Cons x xs)
  have "foldl ast_append (ast_append A x) xs =
          Ast (kind A) (nvalue A) ((childNodes A @ [x]) @ xs) (fexp A) (props A)"
    using Cons.prems by (subst Cons.IH) (simp_all add: ast_append_plain)
  then show ?case by simp
qed

lemma newTree_explicit:
  "newTree t = bind (tree t) (\<lambda>a. saveFunction (upd (\<lambda>r. r\<lparr> tvalue := ''tree'', ast := a \<rparr>) Tree) t)"
  by (simp add: newTree_def Tree_ctor_def Token_ctor_def normalizeValue_def createAst_def
                getAstClass_def baseAst_def newAst_def isGroupKind_def Tree_def Operand_def
                mk_def TokenBase_def upd_def bind_def Let_def split: sum.splits)

lemma append_pure_explicit:
  assumes "isa COperand tp" and "cls (trec prev) \<noteq> CApplyPending"
      and "\<not> isLeaf (kind (ast (trec prev)))" and "\<not> isGroupKind (kind (ast (trec prev)))"
  shows "append_pure prev tp =
     (if (cls (trec prev) = CApplyOp \<or> cls (trec prev) = CApplyArgument) \<and>
         childNodes (ast (trec prev)) \<noteq> [] \<and> isa CGroup tp \<and> isApply (trec tp)
      then (case applyData (trec prev) of
              None \<Rightarrow> Inl TypeError
            | Some d \<Rightarrow>
                if args d \<noteq> enat (length (childNodes (ast (trec tp)))) \<and> args d \<noteq> \<infinity>
                then bind (ApplyOp_name prev)
                       (\<lambda>nm. Inl (Error (''Wrong number of arguments for '' @ nm)))
                else Inr (upd (\<lambda>r. r\<lparr> ast := Ast (kind (ast (trec prev))) (nvalue (ast (trec prev)))
                                              (childNodes (ast (trec prev)) @ childNodes (ast (trec tp)))
                                              (fexp (ast (trec prev))) (props (ast (trec prev))) \<rparr>) prev))
      else saveFunction
             (upd (\<lambda>r. r\<lparr> ast := Ast (kind (ast (trec prev))) (nvalue (ast (trec prev)))
                                    (childNodes (ast (trec prev)) @ [ast (trec tp)])
                                    (fexp (ast (trec prev))) (props (ast (trec prev))) \<rparr>) prev) tp)"
proof -
  have t: "tree tp = Inr (ast (trec tp))" by (rule operand_tree [OF assms(1)])
  have ta: "Token_append prev tp =
      saveFunction
             (upd (\<lambda>r. r\<lparr> ast := Ast (kind (ast (trec prev))) (nvalue (ast (trec prev)))
                                    (childNodes (ast (trec prev)) @ [ast (trec tp)])
                                    (fexp (ast (trec prev))) (props (ast (trec prev))) \<rparr>) prev) tp"
    using assms(3,4) by (cases prev) (auto simp: Token_append_def t bind_def ast_append_plain upd_def)
  have aa: "ApplyOp_append prev tp =
     (if childNodes (ast (trec prev)) \<noteq> [] \<and> isa CGroup tp \<and> isApply (trec tp)
      then (case applyData (trec prev) of
              None \<Rightarrow> Inl TypeError
            | Some d \<Rightarrow>
                if args d \<noteq> enat (length (childNodes (ast (trec tp)))) \<and> args d \<noteq> \<infinity>
                then bind (ApplyOp_name prev)
                       (\<lambda>nm. Inl (Error (''Wrong number of arguments for '' @ nm)))
                else Inr (upd (\<lambda>r. r\<lparr> ast := Ast (kind (ast (trec prev))) (nvalue (ast (trec prev)))
                                              (childNodes (ast (trec prev)) @ childNodes (ast (trec tp)))
                                              (fexp (ast (trec prev))) (props (ast (trec prev))) \<rparr>) prev))
      else Token_append prev tp)"
    using assms(3,4)
    by (cases prev) (auto simp: ApplyOp_append_def t bind_def foldl_ast_append upd_def
                          split: option.splits)
  show ?thesis
    using assms(2) by (cases "cls (trec prev)") (simp_all add: append_pure_def ta aa)
qed

lemma saveFunction_ast:
  "saveFunction t tok = Inr t' \<Longrightarrow> ast (trec t') = ast (trec t)"
  by (cases t) (auto simp: saveFunction_def upd_def split: option.splits if_splits)

lemma bind_cong_Inr: "(\<And>v. m = Inr v \<Longrightarrow> f v = g v) \<Longrightarrow> bind m f = bind m g"
  by (cases m) (simp_all add: bind_def)

lemma bind_assoc: "bind (bind m f) g = bind m (\<lambda>a. bind (f a) g)"
  by (cases m) (simp_all add: bind_def)

text \<open>The push of a binary operator on an operand, by the methods of the tokens.\<close>

lemma push_binary_on_operand:
  assumes "isa CBinaryOp this"
      and "optype (trec this) \<noteq> ''unary''"
      and "optype (trec this) = ''both'' \<longrightarrow> associativity (trec this) \<noteq> ''right''"
      and "isa COperand tp" and "cls (trec prev) \<noteq> CApplyPending"
  shows "push (Suc (Suc n)) this (tp # prev # rest) =
           (if isa COperator prev \<and>
               (precedence (trec prev) > precedence (trec this) \<or>
                (precedence (trec prev) = precedence (trec this) \<and>
                 associativity (trec this) = ''left''))
            then bind (append_pure prev tp) (\<lambda>prev1.
                   case canCombine this prev1 of
                     (can, prev2) \<Rightarrow>
                       if can then Inr (prev2 # rest)
                       else bind (newTree prev2) (\<lambda>t.
                            bind (push (Suc n) t rest) (\<lambda>st. push (Suc n) this st)))
            else bind (append_pure this tp) (\<lambda>this1.
                   Inr ((if isa CApply tp
                         then upd (\<lambda>r. r\<lparr> applyData := applyData (trec tp) \<rparr>) this1
                         else this1) # prev # rest)))"
proof -
  let ?H = "isa COperator prev \<and>
               (precedence (trec prev) > precedence (trec this) \<or>
                (precedence (trec prev) = precedence (trec this) \<and>
                 associativity (trec this) = ''left''))"
  have c: "cls (trec this) = CBinaryOp \<or> cls (trec this) = CPower \<or>
           cls (trec this) = CJuxtapose \<or> cls (trec this) = CRelation"
    using assms(1) by (cases "cls (trec this)") (auto simp: isa_def superclasses_def)
  have start: "push (Suc (Suc n)) this (tp # prev # rest) =
      bind (Operator_follows (exec (Suc n)) this (tp # prev # rest))
        (\<lambda>(items, st2). Inr (pushItems items st2))"
    using c
    by (auto simp: push_def Stack_push_def operand_declines [OF assms(4)] bind_def follows_def)
  have notleft: "\<not> checkIsLeftUnary this tp"
    using assms(2,4) by (auto simp: checkIsLeftUnary_def)
  have notop: "\<not> isa COperator tp"
    using assms(4) by (cases "cls (trec tp)") (auto simp: isa_def superclasses_def)
  have notright: "\<And>t. optype (trec t) = optype (trec this) \<Longrightarrow>
                      associativity (trec t) = associativity (trec this) \<Longrightarrow>
                      \<not> checkIsRightUnary t tp"
    using assms(2,3) by (auto simp: checkIsRightUnary_def)
  have higher: "checkIsHigherPrecedence this prev tp =
      (precedence (trec prev) > precedence (trec this) \<or>
       (precedence (trec prev) = precedence (trec this) \<and> associativity (trec this) = ''left''))"
    using c by (auto simp: checkIsHigherPrecedence_def Operator_checkIsHigherPrecedence_def)
  show ?thesis
  proof (cases ?H)
    case True
    show ?thesis
    proof (cases "append_pure prev tp")
      case (Inl e)
      with True assms(4,5) notleft higher show ?thesis
        by (simp add: start Operator_follows_def Operator_checkOperator_def appendTop_def bind_def
                      exec_Append del: exec.simps)
    next
      case (Inr prev1)
      from True assms(4,5) notleft higher Inr show ?thesis
        by (simp add: start Operator_follows_def Operator_checkOperator_def appendTop_def bind_def
                      pushItems_def exec_Append exec_Push
                 del: exec.simps split: sum.splits prod.splits)
    qed
  next
    case False
    show ?thesis
    proof (cases "append_pure this tp")
      case (Inl e)
      with False assms(4,5) notleft higher show ?thesis
        by (auto simp: start Operator_follows_def Operator_checkOperator_def bind_def)
    next
      case (Inr this1)
      from append_pure_keeps [OF Inr]
      have k: "optype (trec this1) = optype (trec this)"
              "associativity (trec this1) = associativity (trec this)"
        by simp_all
      have k2: "optype (trec (upd (\<lambda>r. r\<lparr> applyData := applyData (trec tp) \<rparr>) this1)) =
                  optype (trec this)"
               "associativity (trec (upd (\<lambda>r. r\<lparr> applyData := applyData (trec tp) \<rparr>) this1)) =
                  associativity (trec this)"
        using k by (cases this1, simp add: upd_def)+
      from False assms(4,5) notleft higher Inr notright [OF k] notright [OF k2] show ?thesis
        by (auto simp: start Operator_follows_def Operator_checkOperator_def bind_def
                       pushItems_def Let_def)
    qed
  qed
qed

text \<open>
  C2.  A binary operator \<open>this\<close> (of a class derived from \<open>BinaryOp\<close>, not read as unary
  after an operand) is pushed on an operand \<open>tp\<close> above \<open>prev\<close>; the nodes of the operators
  are nodes with children.  When \<open>prev\<close> is an operator whose precedence is higher, or
  equal with \<open>this\<close> left-associative, the operand is attached to \<open>prev\<close> first: the node of
  \<open>tp\<close> becomes the last child of the node of \<open>prev\<close> (an application operator that gets
  its argument group takes the children of the group, if their number is right), and
  \<open>saveFunction\<close> updates the function descriptor of \<open>prev\<close>, leaving its node alone.
  Then, when \<open>this\<close> can combine with \<open>prev\<close> (two relations that fuse; or the same value,
  combining enabled, \<open>prev\<close> not unary), \<open>prev\<close> stays open on the stack with the extended
  node and \<open>this\<close> is not pushed; else \<open>prev\<close> is replaced by a \<open>Tree\<close> token that holds the
  tree of its node (for an operator of the classes \<open>BinaryOp\<close>, \<open>UnaryOp\<close> and
  \<open>Juxtapose\<close> the node itself), pushed on the rest of the stack, and \<open>this\<close> is pushed
  again.  In every
  other case, so at equal precedence with \<open>this\<close> right-associative, \<open>prev\<close> is left as it is
  and \<open>this\<close> goes on the stack above it, open, with the node of \<open>tp\<close> as the last (for a new
  operator the first) child of its node.
\<close>

theorem binary_operator_reduces_deeper:
  assumes "isa CBinaryOp this"
      and "optype (trec this) \<noteq> ''unary''"
      and "optype (trec this) = ''both'' \<longrightarrow> associativity (trec this) \<noteq> ''right''"
      and "isa COperand tp" and "cls (trec prev) \<noteq> CApplyPending"
      and "\<not> isLeaf (kind (ast (trec this))) \<and> \<not> isGroupKind (kind (ast (trec this)))"
      and "isa COperator prev \<longrightarrow>
             \<not> isLeaf (kind (ast (trec prev))) \<and> \<not> isGroupKind (kind (ast (trec prev)))"
  shows "push (Suc (Suc n)) this (tp # prev # rest) =
           (if isa COperator prev \<and>
               (precedence (trec prev) > precedence (trec this) \<or>
                (precedence (trec prev) = precedence (trec this) \<and>
                 associativity (trec this) = ''left''))
            then
              bind
                (if (cls (trec prev) = CApplyOp \<or> cls (trec prev) = CApplyArgument) \<and>
                    childNodes (ast (trec prev)) \<noteq> [] \<and> isa CGroup tp \<and> isApply (trec tp)
                 then (case applyData (trec prev) of
                         None \<Rightarrow> Inl TypeError
                       | Some d \<Rightarrow>
                           if args d \<noteq> enat (length (childNodes (ast (trec tp)))) \<and> args d \<noteq> \<infinity>
                           then bind (ApplyOp_name prev)
                                  (\<lambda>nm. Inl (Error (''Wrong number of arguments for '' @ nm)))
                           else Inr (upd (\<lambda>r. r\<lparr> ast :=
                                       Ast (kind (ast (trec prev))) (nvalue (ast (trec prev)))
                                           (childNodes (ast (trec prev)) @ childNodes (ast (trec tp)))
                                           (fexp (ast (trec prev))) (props (ast (trec prev))) \<rparr>) prev))
                 else saveFunction
                        (upd (\<lambda>r. r\<lparr> ast :=
                                Ast (kind (ast (trec prev))) (nvalue (ast (trec prev)))
                                    (childNodes (ast (trec prev)) @ [ast (trec tp)])
                                    (fexp (ast (trec prev))) (props (ast (trec prev))) \<rparr>) prev) tp)
                (\<lambda>prev1.
                   if cls (trec this) = CRelation \<and> combine (trec this) \<and> isa CRelation prev \<and>
                      (optype (trec prev) = ''='' \<or> tvalue (trec this) = ''='' \<or>
                       take 1 (optype (trec prev)) = take 1 (tvalue (trec this)))
                   then Inr (upd (\<lambda>r. r\<lparr> relList := relList r @ [tvalue (trec this)],
                                          optype := (if optype r = ''='' then take 1 (tvalue (trec this))
                                                     else optype r) \<rparr>) prev1 # rest)
                   else if cls (trec this) \<noteq> CRelation \<and> tvalue (trec prev) = tvalue (trec this) \<and>
                           combine (trec this) \<and> optype (trec prev) \<noteq> ''unary''
                   then Inr (prev1 # rest)
                   else bind (tree prev1) (\<lambda>a.
                        bind (saveFunction (upd (\<lambda>r. r\<lparr> tvalue := ''tree'', ast := a \<rparr>) Tree) prev1) (\<lambda>t.
                        bind (push (Suc n) t rest) (\<lambda>st. push (Suc n) this st))))
            else
              bind (saveFunction
                      (upd (\<lambda>r. r\<lparr> ast :=
                              Ast (kind (ast (trec this))) (nvalue (ast (trec this)))
                                  (childNodes (ast (trec this)) @ [ast (trec tp)])
                                  (fexp (ast (trec this))) (props (ast (trec this))) \<rparr>) this) tp)
                (\<lambda>this1.
                   Inr ((if isa CApply tp
                         then upd (\<lambda>r. r\<lparr> applyData := applyData (trec tp) \<rparr>) this1
                         else this1) # prev # rest)))
         \<and> (\<forall>t tok t'. saveFunction t tok = Inr t' \<longrightarrow>
               ast (trec t') = ast (trec t) \<and> cls (trec t') = cls (trec t) \<and>
               tvalue (trec t') = tvalue (trec t))
         \<and> (\<forall>t. cls (trec t) = CBinaryOp \<or> cls (trec t) = CUnaryOp \<or> cls (trec t) = CJuxtapose \<longrightarrow>
               tree t = Inr (ast (trec t)))"
proof -
  let ?H = "isa COperator prev \<and>
               (precedence (trec prev) > precedence (trec this) \<or>
                (precedence (trec prev) = precedence (trec this) \<and>
                 associativity (trec this) = ''left''))"
  let ?E = "if (cls (trec prev) = CApplyOp \<or> cls (trec prev) = CApplyArgument) \<and>
                    childNodes (ast (trec prev)) \<noteq> [] \<and> isa CGroup tp \<and> isApply (trec tp)
                 then (case applyData (trec prev) of
                         None \<Rightarrow> Inl TypeError
                       | Some d \<Rightarrow>
                           if args d \<noteq> enat (length (childNodes (ast (trec tp)))) \<and> args d \<noteq> \<infinity>
                           then bind (ApplyOp_name prev)
                                  (\<lambda>nm. Inl (Error (''Wrong number of arguments for '' @ nm)))
                           else Inr (upd (\<lambda>r. r\<lparr> ast :=
                                       Ast (kind (ast (trec prev))) (nvalue (ast (trec prev)))
                                           (childNodes (ast (trec prev)) @ childNodes (ast (trec tp)))
                                           (fexp (ast (trec prev))) (props (ast (trec prev))) \<rparr>) prev))
                 else saveFunction
                        (upd (\<lambda>r. r\<lparr> ast :=
                                Ast (kind (ast (trec prev))) (nvalue (ast (trec prev)))
                                    (childNodes (ast (trec prev)) @ [ast (trec tp)])
                                    (fexp (ast (trec prev))) (props (ast (trec prev))) \<rparr>) prev) tp"
  let ?K = "\<lambda>prev1.
                   if cls (trec this) = CRelation \<and> combine (trec this) \<and> isa CRelation prev \<and>
                      (optype (trec prev) = ''='' \<or> tvalue (trec this) = ''='' \<or>
                       take 1 (optype (trec prev)) = take 1 (tvalue (trec this)))
                   then Inr (upd (\<lambda>r. r\<lparr> relList := relList r @ [tvalue (trec this)],
                                          optype := (if optype r = ''='' then take 1 (tvalue (trec this))
                                                     else optype r) \<rparr>) prev1 # rest)
                   else if cls (trec this) \<noteq> CRelation \<and> tvalue (trec prev) = tvalue (trec this) \<and>
                           combine (trec this) \<and> optype (trec prev) \<noteq> ''unary''
                   then Inr (prev1 # rest)
                   else bind (tree prev1) (\<lambda>a.
                        bind (saveFunction (upd (\<lambda>r. r\<lparr> tvalue := ''tree'', ast := a \<rparr>) Tree) prev1) (\<lambda>t.
                        bind (push (Suc n) t rest) (\<lambda>st. push (Suc n) this st)))"
  let ?F = "\<lambda>prev1.
                   case canCombine this prev1 of
                     (can, prev2) \<Rightarrow>
                       if can then Inr (prev2 # rest)
                       else bind (newTree prev2) (\<lambda>t.
                            bind (push (Suc n) t rest) (\<lambda>st. push (Suc n) this st))"
  let ?T = "bind (saveFunction
                      (upd (\<lambda>r. r\<lparr> ast :=
                              Ast (kind (ast (trec this))) (nvalue (ast (trec this)))
                                  (childNodes (ast (trec this)) @ [ast (trec tp)])
                                  (fexp (ast (trec this))) (props (ast (trec this))) \<rparr>) this) tp)
                (\<lambda>this1.
                   Inr ((if isa CApply tp
                         then upd (\<lambda>r. r\<lparr> applyData := applyData (trec tp) \<rparr>) this1
                         else this1) # prev # rest))"
  note g = push_binary_on_operand [OF assms(1-5), of n rest]
  have c: "cls (trec this) = CBinaryOp \<or> cls (trec this) = CPower \<or>
           cls (trec this) = CJuxtapose \<or> cls (trec this) = CRelation"
    using assms(1) by (cases "cls (trec this)") (auto simp: isa_def superclasses_def)
  have thisapp: "append_pure this tp =
      saveFunction
        (upd (\<lambda>r. r\<lparr> ast :=
                Ast (kind (ast (trec this))) (nvalue (ast (trec this)))
                    (childNodes (ast (trec this)) @ [ast (trec tp)])
                    (fexp (ast (trec this))) (props (ast (trec this))) \<rparr>) this) tp"
  proof -
    have "cls (trec this) \<noteq> CApplyPending" "cls (trec this) \<noteq> CApplyOp"
         "cls (trec this) \<noteq> CApplyArgument"
      using c by auto
    with append_pure_explicit [OF assms(4), of this] assms(6) show ?thesis by simp
  qed
  have keeps: "\<forall>t tok t'. saveFunction t tok = Inr t' \<longrightarrow>
               ast (trec t') = ast (trec t) \<and> cls (trec t') = cls (trec t) \<and>
               tvalue (trec t') = tvalue (trec t)"
    using saveFunction_ast saveFunction_keeps by blast
  have main: "push (Suc (Suc n)) this (tp # prev # rest) = (if ?H then bind ?E ?K else ?T)"
  proof (cases ?H)
    case True
    then have "isa COperator prev" by simp
    with assms(7) have nl: "\<not> isLeaf (kind (ast (trec prev)))" "\<not> isGroupKind (kind (ast (trec prev)))"
      by simp_all
    note ex = append_pure_explicit [OF assms(4) assms(5) nl]
    have FK: "?F prev1 = ?K prev1" if a: "append_pure prev tp = Inr prev1" for prev1
    proof -
      from append_pure_keeps [OF a]
      have k: "cls (trec prev1) = cls (trec prev)" "tvalue (trec prev1) = tvalue (trec prev)"
              "optype (trec prev1) = optype (trec prev)"
        by simp_all
      have r: "isa CRelation prev1 = isa CRelation prev"
        using k(1) by (simp add: isa_def)
      show ?thesis
      proof (cases "cls (trec this) = CRelation")
        case True
        then show ?thesis
          by (auto simp: canCombine_def Relation_canCombine_def k r newTree_explicit Let_def
                         bind_assoc)
      next
        case False
        then show ?thesis
          by (simp add: canCombine_def Operator_canCombine_def k newTree_explicit bind_assoc)
      qed
    qed
    have "push (Suc (Suc n)) this (tp # prev # rest) = bind (append_pure prev tp) ?F"
      by (simp only: g if_P [OF True])
    also have "\<dots> = bind (append_pure prev tp) ?K"
      by (rule bind_cong_Inr) (rule FK)
    also have "\<dots> = bind ?E ?K"
      by (simp only: ex)
    finally show ?thesis
      by (simp only: if_P [OF True])
  next
    case False
    have "push (Suc (Suc n)) this (tp # prev # rest) = ?T"
      by (simp only: g if_not_P [OF False] thisapp)
    then show ?thesis
      by (simp only: if_not_P [OF False])
  qed
  have plain: "\<forall>t. cls (trec t) = CBinaryOp \<or> cls (trec t) = CUnaryOp \<or> cls (trec t) = CJuxtapose \<longrightarrow>
               tree t = Inr (ast (trec t))"
    by (auto simp: tree_def)
  from main keeps plain show ?thesis by blast
qed

text \<open>
  \<open>+\<close> pushed on \<open>y\<close> above the \<open>+\<close> of \<open>x +\<close>: the same precedence, left-associative, the
  same value and combining: \<open>y\<close> becomes the second child of the node of the first \<open>+\<close>,
  which stays on the stack alone.
\<close>

theorem binary_operator_reduces_deeper_witness:
  "push 2 (projr (construct Plus (Some ''+'') None))
     [projr (construct Identifier (Some ''y'') None),
      upd (\<lambda>r. r\<lparr> canApply := False,
                   ast := Ast KBop (VStr ''+'') [Ast KName (VStr ''x'') [] None []] None
                            [(''precedence'', JNum 1)] \<rparr>)
        (projr (construct Plus (Some ''+'') None))] =
   Inr [upd (\<lambda>r. r\<lparr> canApply := False,
                   ast := Ast KBop (VStr ''+'')
                            [Ast KName (VStr ''x'') [] None [], Ast KName (VStr ''y'') [] None []] None
                            [(''precedence'', JNum 1)] \<rparr>)
          (projr (construct Plus (Some ''+'') None))]"
proof -
  let ?t = "projr (construct Plus (Some ''+'') None)"
  let ?y = "projr (construct Identifier (Some ''y'') None)"
  let ?p = "upd (\<lambda>r. r\<lparr> canApply := False,
                   ast := Ast KBop (VStr ''+'') [Ast KName (VStr ''x'') [] None []] None
                            [(''precedence'', JNum 1)] \<rparr>) ?t"
  have h: "isa CBinaryOp ?t" "optype (trec ?t) \<noteq> ''unary''"
          "optype (trec ?t) = ''both'' \<longrightarrow> associativity (trec ?t) \<noteq> ''right''"
          "isa COperand ?y" "cls (trec ?p) \<noteq> CApplyPending"
          "\<not> isLeaf (kind (ast (trec ?t))) \<and> \<not> isGroupKind (kind (ast (trec ?t)))"
          "isa COperator ?p \<longrightarrow>
             \<not> isLeaf (kind (ast (trec ?p))) \<and> \<not> isGroupKind (kind (ast (trec ?p)))"
    by code_simp+
  have "push (Suc (Suc 0)) ?t [?y, ?p] =
          Inr [upd (\<lambda>r. r\<lparr> canApply := False,
                   ast := Ast KBop (VStr ''+'')
                            [Ast KName (VStr ''x'') [] None [], Ast KName (VStr ''y'') [] None []] None
                            [(''precedence'', JNum 1)] \<rparr>) ?t]"
    apply (subst conjunct1 [OF binary_operator_reduces_deeper [OF h, of 0 "[]"]])
    apply code_simp
    done
  then show ?thesis
    by (simp only: numeral_2_eq_2)
qed

text \<open>
  The stack after \<open>x +\<close> is the one of the witness; \<open>*\<close> on \<open>y\<close> above \<open>+\<close> is not reduced and
  takes \<open>y\<close> as its first child; \<open>+\<close> on \<open>y\<close> above the \<open>*\<close> of \<open>x *\<close> puts the tree of the
  product, with \<open>y\<close> attached, under the new \<open>+\<close>; \<open><\<close> on \<open>y\<close> above the \<open>+\<close> of \<open>x +\<close> does
  the same with the sum.  The nodes of the tokens on the stack, the top first:
\<close>

lemma push_on_operand_examples:
  "bind (construct Start None None) (\<lambda>s.
   bind (pushTokens 20 [(Identifier, ''x''), (Plus, ''+'')] [s]) (\<lambda>st. Inr (hd st))) =
     Inr (upd (\<lambda>r. r\<lparr> canApply := False,
                   ast := Ast KBop (VStr ''+'') [Ast KName (VStr ''x'') [] None []] None
                            [(''precedence'', JNum 1)] \<rparr>)
            (projr (construct Plus (Some ''+'') None)))"
  "bind (construct Start None None) (\<lambda>s.
   bind (pushTokens 20 [(Identifier, ''x''), (Plus, ''+''), (Identifier, ''y''), (Multiply, ''*'')] [s])
     (\<lambda>st. Inr (map (\<lambda>t. ast (trec t)) (butlast st)))) =
     Inr [Ast KBop (VStr ''*'') [Ast KName (VStr ''y'') [] None []] None [(''precedence'', JNum 2)],
          Ast KBop (VStr ''+'') [Ast KName (VStr ''x'') [] None []] None [(''precedence'', JNum 1)]]"
  "bind (construct Start None None) (\<lambda>s.
   bind (pushTokens 20 [(Identifier, ''x''), (Multiply, ''*''), (Identifier, ''y''), (Plus, ''+'')] [s])
     (\<lambda>st. Inr (map (\<lambda>t. ast (trec t)) (butlast st)))) =
     Inr [Ast KBop (VStr ''+'')
            [Ast KBop (VStr ''*'') [Ast KName (VStr ''x'') [] None [], Ast KName (VStr ''y'') [] None []]
               None [(''precedence'', JNum 2)]]
            None [(''precedence'', JNum 1)]]"
  "bind (construct Start None None) (\<lambda>s.
   bind (pushTokens 20 [(Identifier, ''x''), (Plus, ''+''), (Identifier, ''y''),
                        (StrictInequalities, ''<'')] [s])
     (\<lambda>st. Inr (map (\<lambda>t. ast (trec t)) (butlast st)))) =
     Inr [Ast KRel (VStr ''<'')
            [Ast KBop (VStr ''+'') [Ast KName (VStr ''x'') [] None [], Ast KName (VStr ''y'') [] None []]
               None [(''precedence'', JNum 1)]]
            None [(''precedence'', JNum (3 / 4))]]"
  by code_simp+

text \<open>
  The parser at \<open>x+y*z\<close>, \<open>x*y+z\<close>, \<open>x-y-z\<close> (left fold), \<open>x^y^z\<close> (right fold) and
  \<open>x+y+z\<close> (one node with three children).
\<close>

lemma precedence_examples:
  "convert 20 [(Identifier, ''x''), (Plus, ''+''), (Identifier, ''y''), (Multiply, ''*''),
               (Identifier, ''z'')] =
     Inr (Ast KBop (VStr ''+'')
            [Ast KName (VStr ''x'') [] None [],
             Ast KBop (VStr ''*'') [Ast KName (VStr ''y'') [] None [], Ast KName (VStr ''z'') [] None []]
               None [(''precedence'', JNum 2)]]
            None [(''precedence'', JNum 1)])"
  "convert 20 [(Identifier, ''x''), (Multiply, ''*''), (Identifier, ''y''), (Plus, ''+''),
               (Identifier, ''z'')] =
     Inr (Ast KBop (VStr ''+'')
            [Ast KBop (VStr ''*'') [Ast KName (VStr ''x'') [] None [], Ast KName (VStr ''y'') [] None []]
               None [(''precedence'', JNum 2)],
             Ast KName (VStr ''z'') [] None []]
            None [(''precedence'', JNum 1)])"
  "convert 20 [(Identifier, ''x''), (Minus, ''-''), (Identifier, ''y''), (Minus, ''-''),
               (Identifier, ''z'')] =
     Inr (Ast KBop (VStr ''-'')
            [Ast KBop (VStr ''-'') [Ast KName (VStr ''x'') [] None [], Ast KName (VStr ''y'') [] None []]
               None [(''precedence'', JNum 1)],
             Ast KName (VStr ''z'') [] None []]
            None [(''precedence'', JNum 1)])"
  "convert 20 [(Identifier, ''x''), (Power, ''^''), (Identifier, ''y''), (Power, ''^''),
               (Identifier, ''z'')] =
     Inr (Ast KBop (VStr ''^'')
            [Ast KName (VStr ''x'') [] None [],
             Ast KBop (VStr ''^'') [Ast KName (VStr ''y'') [] None [], Ast KName (VStr ''z'') [] None []]
               None [(''associativity'', JStr ''right''), (''precedence'', JNum 4),
                     (''opString'', JStr ''^'')]]
            None [(''associativity'', JStr ''right''), (''precedence'', JNum 4),
                  (''opString'', JStr ''^'')])"
  "convert 20 [(Identifier, ''x''), (Plus, ''+''), (Identifier, ''y''), (Plus, ''+''),
               (Identifier, ''z'')] =
     Inr (Ast KBop (VStr ''+'')
            [Ast KName (VStr ''x'') [] None [], Ast KName (VStr ''y'') [] None [],
             Ast KName (VStr ''z'') [] None []]
            None [(''precedence'', JNum 1)])"
  by code_simp+

text \<open>
  C5 (amended).  A relation \<open>this\<close> (its type is its symbol, as the constructor sets it)
  is pushed on an operand \<open>tp\<close> above the open relation \<open>prev\<close>.  When the precedence of
  \<open>prev\<close> is higher, or equal with \<open>this\<close> left-associative (all relations of the
  catalogue have one precedence and are left-associative), the operand is appended to
  \<open>prev\<close> and the two relations fuse if and only if combining is enabled for \<open>this\<close> and
  the type of the chain is \<open>=\<close>, or the symbol of \<open>this\<close> is \<open>=\<close>, or the type of the
  chain and the symbol of \<open>this\<close> begin with the same character.  Fusing appends the
  symbol to the list of the chain, gives a chain of type \<open>=\<close> the first character of the
  symbol as its type, and leaves \<open>prev\<close> open on the stack; \<open>this\<close> is not pushed.
  Otherwise nothing fuses: \<open>prev\<close> is replaced by the tree of its node and \<open>this\<close> is
  pushed again or, when \<open>prev\<close> does not bind as tightly, \<open>this\<close> goes on the stack above
  it.
\<close>

theorem relation_fusion:
  assumes "cls (trec this) = CRelation" and "optype (trec this) = tvalue (trec this)"
      and "tvalue (trec this) \<noteq> ''unary''" and "tvalue (trec this) \<noteq> ''both''"
      and "isa COperand tp" and "cls (trec prev) = CRelation"
  shows "push (Suc (Suc n)) this (tp # prev # rest) =
           (if precedence (trec prev) > precedence (trec this) \<or>
               (precedence (trec prev) = precedence (trec this) \<and>
                associativity (trec this) = ''left'')
            then bind (append_pure prev tp) (\<lambda>prev1.
                   if combine (trec this) \<and>
                      (optype (trec prev) = ''='' \<or> tvalue (trec this) = ''='' \<or>
                       take 1 (optype (trec prev)) = take 1 (tvalue (trec this)))
                   then Inr (upd (\<lambda>r. r\<lparr> relList := relList r @ [tvalue (trec this)],
                                          optype := (if optype r = ''='' then take 1 (tvalue (trec this))
                                                     else optype r) \<rparr>) prev1 # rest)
                   else bind (newTree prev1) (\<lambda>t.
                        bind (push (Suc n) t rest) (\<lambda>st. push (Suc n) this st)))
            else bind (append_pure this tp) (\<lambda>this1.
                   Inr ((if isa CApply tp
                         then upd (\<lambda>r. r\<lparr> applyData := applyData (trec tp) \<rparr>) this1
                         else this1) # prev # rest)))"
proof -
  let ?H = "precedence (trec prev) > precedence (trec this) \<or>
               (precedence (trec prev) = precedence (trec this) \<and>
                associativity (trec this) = ''left'')"
  have start: "push (Suc (Suc n)) this (tp # prev # rest) =
      bind (Operator_follows (exec (Suc n)) this (tp # prev # rest))
        (\<lambda>(items, st2). Inr (pushItems items st2))"
    using assms(1)
    by (simp add: push_def Stack_push_def operand_declines [OF assms(5)] bind_def follows_def)
  have notleft: "\<not> checkIsLeftUnary this tp"
    using assms(2,3,4) by (simp add: checkIsLeftUnary_def)
  have notright: "\<And>t u. optype (trec t) = tvalue (trec this) \<Longrightarrow> \<not> checkIsRightUnary t u"
    using assms(3,4) by (simp add: checkIsRightUnary_def)
  have higher: "checkIsHigherPrecedence this prev tp = ?H"
    using assms(1) by (simp add: checkIsHigherPrecedence_def Operator_checkIsHigherPrecedence_def)
  have isop: "isa COperator prev" "cls (trec prev) \<noteq> CApplyPending" "isa CRelation prev"
    using assms(6) by (simp_all add: isa_def superclasses_def)
  show ?thesis
  proof (cases ?H)
    case True
    show ?thesis
    proof (cases "append_pure prev tp")
      case (Inl e)
      with True assms notleft higher isop show ?thesis
        by (simp add: start Operator_follows_def Operator_checkOperator_def appendTop_def bind_def
                      exec_Append del: exec.simps)
    next
      case (Inr prev1)
      from append_pure_keeps [OF Inr]
      have keep: "cls (trec prev1) = cls (trec prev)" "optype (trec prev1) = optype (trec prev)"
        by simp_all
      have rel1: "isa CRelation prev1"
        using keep(1) assms(6) by (simp add: isa_def superclasses_def)
      have comb: "canCombine this prev1 =
          (if combine (trec this) \<and>
              (optype (trec prev) = ''='' \<or> tvalue (trec this) = ''='' \<or>
               take 1 (optype (trec prev)) = take 1 (tvalue (trec this)))
           then (True, upd (\<lambda>r. r\<lparr> relList := relList r @ [tvalue (trec this)],
                                    optype := (if optype r = ''='' then take 1 (tvalue (trec this))
                                               else optype r) \<rparr>) prev1)
           else (False, prev1))"
        using assms(1) rel1 keep(2)
        by (auto simp: canCombine_def Relation_canCombine_def Let_def)
      show ?thesis
      proof (cases "combine (trec this) \<and>
              (optype (trec prev) = ''='' \<or> tvalue (trec this) = ''='' \<or>
               take 1 (optype (trec prev)) = take 1 (tvalue (trec this)))")
        case fuse: True
        from fuse comb have cc: "canCombine this prev1 =
            (True, upd (\<lambda>r. r\<lparr> relList := relList r @ [tvalue (trec this)],
                                    optype := (if optype r = ''='' then take 1 (tvalue (trec this))
                                               else optype r) \<rparr>) prev1)"
          by simp
        from True assms(1,5) notleft higher isop Inr show ?thesis
          by (simp only: if_P [OF fuse] start Operator_follows_def Operator_checkOperator_def
                         appendTop_def exec_Append cc)
             (simp add: bind_def pushItems_def cc del: exec.simps)
      next
        case nofuse: False
        from nofuse comb have cc: "canCombine this prev1 = (False, prev1)"
          by simp
        from True assms(1,5) notleft higher isop Inr show ?thesis
          by (simp only: if_not_P [OF nofuse] start Operator_follows_def Operator_checkOperator_def
                         appendTop_def exec_Append cc)
             (simp add: bind_def pushItems_def exec_Push cc del: exec.simps split: sum.splits)
      qed
    qed
  next
    case False
    show ?thesis
    proof (cases "append_pure this tp")
      case (Inl e)
      with False assms notleft higher isop show ?thesis
        by (auto simp: start Operator_follows_def Operator_checkOperator_def bind_def)
    next
      case (Inr this1)
      from append_pure_keeps [OF Inr] assms(2)
      have ty: "optype (trec this1) = tvalue (trec this)" by simp
      have ty2: "optype (trec (upd (\<lambda>r. r\<lparr> applyData := applyData (trec tp) \<rparr>) this1)) =
                 tvalue (trec this)"
        using ty by (cases this1) (simp add: upd_def)
      from False assms notleft higher isop Inr notright [OF ty] notright [OF ty2] show ?thesis
        by (auto simp: start Operator_follows_def Operator_checkOperator_def bind_def
                       pushItems_def Let_def)
    qed
  qed
qed

theorem relation_fusion_witness:
  "push 2 (projr (construct WeakInequalities (Some ''<='') None))
     [projr (construct Identifier (Some ''y'') None),
      projr (construct StrictInequalities (Some ''<'') None)] =
   bind (append_pure (projr (construct StrictInequalities (Some ''<'') None))
           (projr (construct Identifier (Some ''y'') None)))
     (\<lambda>prev1. Inr [upd (\<lambda>r. r\<lparr> relList := relList r @ [''<=''],
                                  optype := (if optype r = ''='' then take 1 ''<='' else optype r) \<rparr>)
                     prev1])"
proof -
  let ?t = "projr (construct WeakInequalities (Some ''<='') None)"
  let ?y = "projr (construct Identifier (Some ''y'') None)"
  let ?p = "projr (construct StrictInequalities (Some ''<'') None)"
  have h: "cls (trec ?t) = CRelation" "optype (trec ?t) = tvalue (trec ?t)"
          "tvalue (trec ?t) \<noteq> ''unary''" "tvalue (trec ?t) \<noteq> ''both''"
          "isa COperand ?y" "cls (trec ?p) = CRelation"
    by code_simp+
  have c: "precedence (trec ?p) > precedence (trec ?t) \<or>
           (precedence (trec ?p) = precedence (trec ?t) \<and> associativity (trec ?t) = ''left'')"
    by code_simp
  have d: "combine (trec ?t) \<and>
           (optype (trec ?p) = ''='' \<or> tvalue (trec ?t) = ''='' \<or>
            take 1 (optype (trec ?p)) = take 1 (tvalue (trec ?t)))"
    by code_simp
  have v: "tvalue (trec ?t) = ''<=''"
    by code_simp
  have "push (Suc (Suc 0)) ?t [?y, ?p] =
          bind (append_pure ?p ?y)
            (\<lambda>prev1. Inr [upd (\<lambda>r. r\<lparr> relList := relList r @ [tvalue (trec ?t)],
                                         optype := (if optype r = ''='' then take 1 (tvalue (trec ?t))
                                                    else optype r) \<rparr>) prev1])"
    by (simp only: relation_fusion [OF h, of 0 "[]"] if_P [OF c] if_P [OF d])
  then show ?thesis
    by (simp only: numeral_2_eq_2 v)
qed

text \<open>
  The claim as stated fails for an equality after an inequality: the chain of \<open>x < y\<close> has
  the type \<open><\<close>, not \<open>=\<close>, and \<open>=\<close> does not begin with \<open><\<close>, yet \<open>canCombine\<close> answers
  that the two fuse, and \<open>x < y = z\<close> is one multi-relation node.  (The comment on
  \<open>Relation.list\<close> gives \<open>x < y = z <= 5\<close> as an example of such a chain.)
\<close>

theorem equality_fuses_with_inequality:
  "fst (Relation_canCombine (projr (construct Equals (Some ''='') None))
          (projr (construct StrictInequalities (Some ''<'') None)))
   \<and> optype (trec (projr (construct StrictInequalities (Some ''<'') None))) = ''<''
   \<and> take 1 (tvalue (trec (projr (construct Equals (Some ''='') None)))) = ''=''
   \<and> convert 20 [(Identifier, ''x''), (StrictInequalities, ''<''), (Identifier, ''y''),
                  (Equals, ''=''), (Identifier, ''z'')] =
       Inr (Ast KMultiRel (VStr ''<'')
              [Ast KName (VStr ''x'') [] None [], Ast KName (VStr ''y'') [] None [],
               Ast KName (VStr ''z'') [] None []]
              None [(''relations'', JArr [JStr ''<'', JStr ''=''])])"
  by code_simp

section \<open>The JSON round trip\<close>

lemma sequence_map_Inr:
  "(\<And>x. x \<in> set xs \<Longrightarrow> f x = Inr (g x)) \<Longrightarrow> sequence (map f xs) = Inr (map g xs)"
  by (induction xs) simp_all

lemma sequence_Inr_map:
  "sequence xs = Inr ys \<Longrightarrow> xs = map Inr ys"
  by (induction xs arbitrary: ys) (auto split: sum.splits)

lemma toJSON_is_object: "toJSON a = Inr j \<Longrightarrow> \<exists>fs. j = JObj fs"
  by (cases a) (auto split: if_splits sum.splits option.splits)

lemma value_of_valueJSON:
  "(case valueJSON v of JStr s \<Rightarrow> Some (VStr s) | JNum n \<Rightarrow> Some (VNum n) | _ \<Rightarrow> None) = Some v"
  by (cases v) (simp_all add: valueJSON_def)

lemma filter_own_props:
  "list_all (\<lambda>(n, _). n \<noteq> ''kind'' \<and> n \<noteq> ''value'' \<and> n \<noteq> ''childNodes'' \<and> n \<noteq> ''exp'') ps \<Longrightarrow>
   filter (\<lambda>(n, _). n \<noteq> ''kind'' \<and> n \<noteq> ''value'') ps = ps \<and>
   filter (\<lambda>(n, _). n \<noteq> ''kind'' \<and> n \<noteq> ''value'' \<and> n \<noteq> ''childNodes'') ps = ps \<and>
   filter (\<lambda>(n, _). n \<noteq> ''kind'' \<and> n \<noteq> ''value'' \<and> n \<noteq> ''childNodes'' \<and> n \<noteq> ''exp'') ps = ps \<and>
   map_of ps ''childNodes'' = None \<and> map_of ps ''exp'' = None"
  by (induction ps) auto

lemma fromJSON_toJSON:
  "registered astMap a \<Longrightarrow> \<exists>fs. toJSON a = Inr (JObj fs) \<and> fromJSON astMap (JObj fs) = Inr a"
proof (induction a)
  case (Ast k v cs e ps)
  have cls: "getAstClass astMap (kindName k) = Inr k"
    using Ast.prems by (simp add: getAstClass_def)
  have own: "list_all (\<lambda>(n, _). n \<noteq> ''kind'' \<and> n \<noteq> ''value'' \<and> n \<noteq> ''childNodes'' \<and> n \<noteq> ''exp'') ps"
    using Ast.prems by simp
  note f = filter_own_props [OF own]
  show ?case
  proof (cases "isLeaf k")
    case True
    then have "cs = []" "e = None" using Ast.prems by (auto simp: isLeaf_def split: option.splits)
    then show ?thesis
      using True cls f by (simp add: fromJSON.simps value_of_valueJSON)
  next
    case False
    define J where "J = (\<lambda>c. projr (toJSON c))"
    have ch: "toJSON c = Inr (J c) \<and> fromJSON astMap (J c) = Inr c" if "c \<in> set cs" for c
    proof -
      have "registered astMap c" using Ast.prems False that by (simp add: list_all_iff)
      from Ast.IH(1) [OF that this] show ?thesis by (auto simp: J_def)
    qed
    have s1: "sequence (map toJSON cs) = Inr (map J cs)"
      by (rule sequence_map_Inr) (simp add: ch)
    have "sequence (map (fromJSON astMap) (map J cs)) = Inr (map (\<lambda>c. c) cs)"
      unfolding map_map by (rule sequence_map_Inr) (simp add: ch)
    then have s2: "sequence (map (fromJSON astMap) (map J cs)) = Inr cs" by simp
    show ?thesis
    proof (cases e)
      case None
      then have "k \<noteq> KFuncExp" using Ast.prems by simp
      then show ?thesis
        using False None cls f s1 s2 by (simp add: fromJSON.simps value_of_valueJSON)
    next
      case (Some x)
      then have k: "k = KFuncExp" and rx: "registered astMap x" using Ast.prems by simp_all
      from Ast.IH(2) [of x] Some rx obtain xfs where
        x: "toJSON x = Inr (JObj xfs)" "fromJSON astMap (JObj xfs) = Inr x" by auto
      show ?thesis
        using False Some k cls f s1 s2 x by (simp add: fromJSON.simps value_of_valueJSON)
    qed
  qed
qed

lemma fromJSON_children_first:
  "fromJSON astMap (JObj fs) = Inr b \<Longrightarrow> map_of fs ''childNodes'' = Some (JArr xs) \<Longrightarrow>
   sequence (map (fromJSON astMap) xs) = Inr (childNodes b)"
  by (subst (asm) fromJSON.simps)
     (auto split: option.splits json.splits sum.splits if_splits)

lemma fromJSON_exp_first:
  "fromJSON astMap (JObj fs) = Inr b \<Longrightarrow> kind b = KFuncExp \<Longrightarrow> map_of fs ''exp'' = Some jx \<Longrightarrow>
   \<exists>x. fromJSON astMap jx = Inr x \<and> fexp b = Some x"
  by (subst (asm) fromJSON.simps)
     (auto simp: isLeaf_def split: option.splits json.splits sum.splits if_splits)

lemma fromJSON_unregistered:
  "map_of fs ''kind'' = Some (JStr kn) \<Longrightarrow> map_of astMap kn = None \<Longrightarrow>
   fromJSON astMap (JObj fs) = Inl (Error (''No definition for AST class: '' @ kn))"
  by (simp add: fromJSON.simps getAstClass_def)

lemma parse_results_registered:
  "list_all (\<lambda>toks. case convert 20 toks of Inl e \<Rightarrow> False | Inr a \<Rightarrow> registered baseAst a)
     [[(Parens, ''(''), (Numeric, ''3''), (Plus, ''+''), (Numeric, ''4''), (Parens, '')''),
       (Multiply, ''*''), (Numeric, ''2'')],
      [(Parens, ''(''), (Identifier, ''x''), (ListOp, '',''), (Identifier, ''y''), (Parens, '')'')],
      [(Trig, ''sin''), (Minus, ''-''), (Identifier, ''x''), (Power, ''^''), (Numeric, ''2'')],
      [(Parens, ''(''), (FunctionLetters, ''f''), (Plus, ''+''), (FunctionLetters, ''g''),
       (Parens, '')''), (Parens, ''(''), (Identifier, ''x''), (Parens, '')'')],
      [(Identifier, ''x''), (StrictInequalities, ''<''), (Identifier, ''y''),
       (WeakInequalities, ''<=''), (Identifier, ''z'')],
      [(Identifier, ''x''), (Factorial, ''!''), (Equals, ''=''), (Minus, ''-''), (Numeric, ''0'')],
      [(SetBraces, ''{''), (Identifier, ''x''), (ListOp, '',''), (Identifier, ''y''), (SetBraces, ''}'')],
      [(InequalitiesWithVectors, ''<''), (Identifier, ''x''), (ListOp, '',''), (Identifier, ''y''),
       (InequalitiesWithVectors, ''>'')]]"
  by code_simp

text \<open>
  What does hold.  For every tree \<open>a\<close> whose nodes are all built as their classes build
  them, each of a class that the parser has registered under the node's \<open>kind\<close>
  (\<open>registered baseAst a\<close>): \<open>toJSON\<close> returns an object, \<open>fromJSON\<close> on it returns a tree
  equal to \<open>a\<close>, whose \<open>toString\<close> is therefore the same; and the parent is built from the
  reconstructed nodes: the children of the result are the results of \<open>fromJSON\<close> on the
  elements of \<open>childNodes\<close>, all of which succeeded, and the \<open>exp\<close> of a function
  expression is the result of \<open>fromJSON\<close> on \<open>exp\<close>.
\<close>

lemma registered_round_trip:
  assumes "registered baseAst a"
  shows "\<exists>fs b. toJSON a = Inr (JObj fs) \<and> fromJSON baseAst (JObj fs) = Inr b \<and> b = a \<and>
           toString b = toString a \<and>
           (\<forall>xs. map_of fs ''childNodes'' = Some (JArr xs) \<longrightarrow>
                 sequence (map (fromJSON baseAst) xs) = Inr (childNodes b)) \<and>
           (\<forall>jx. kind b = KFuncExp \<and> map_of fs ''exp'' = Some jx \<longrightarrow>
                 (\<exists>x. fromJSON baseAst jx = Inr x \<and> fexp b = Some x))"
proof -
  from fromJSON_toJSON [OF assms] obtain fs where
    j: "toJSON a = Inr (JObj fs)" and r: "fromJSON baseAst (JObj fs) = Inr a" by blast
  have c: "\<forall>xs. map_of fs ''childNodes'' = Some (JArr xs) \<longrightarrow>
             sequence (map (fromJSON baseAst) xs) = Inr (childNodes a)"
    using fromJSON_children_first [OF r] by blast
  have e: "\<forall>jx. kind a = KFuncExp \<and> map_of fs ''exp'' = Some jx \<longrightarrow>
             (\<exists>x. fromJSON baseAst jx = Inr x \<and> fexp a = Some x)"
    using fromJSON_exp_first [OF r] by blast
  from j r c e show ?thesis by blast
qed

text \<open>The sub-node \<open>exp\<close> is converted before the children, and they before the parent: of
  an \<open>exp\<close> and a child that both fail, the error is the one of \<open>exp\<close>; of a child that
  fails in a parent that is complete otherwise, the error is the child's.\<close>

lemma fromJSON_order:
  "fromJSON baseAst
     (JObj [(''kind'', JStr ''FuncExp''), (''value'', JStr []),
            (''childNodes'', JArr [JObj [(''kind'', JStr ''B''), (''value'', JStr ''x'')]]),
            (''exp'', JObj [(''kind'', JStr ''A''), (''value'', JStr ''f'')])]) =
     Inl (Error ''No definition for AST class: A'')"
  "fromJSON baseAst
     (JObj [(''kind'', JStr ''Bop''), (''value'', JStr ''+''),
            (''childNodes'', JArr [JObj [(''kind'', JStr ''Name''), (''value'', JStr ''x'')],
                                   JObj [(''kind'', JStr ''B''), (''value'', JStr ''y'')]])]) =
     Inl (Error ''No definition for AST class: B'')"
  by code_simp+

text \<open>
  C4.  The round trip fails on a tree that the same parser built.  A token class defined
  on \<open>Token\<close> itself, \<^verbatim>\<open>Token.define('word', {token: ['foo']})\<close>, keeps the default
  \<open>astClass: 'base'\<close>, under which \<open>Parser.baseAst\<close> registers \<open>AstNode\<close>; the kind of the
  node is \<open>AstNode\<close>, which the registry does not hold, while every other class of the
  registry is registered under its kind.  The parse of \<open>foo\<close> succeeds, the node has the
  string \<open>foo\<close> and serialises with the kind \<open>AstNode\<close>, and \<open>fromJSON\<close> on the result
  raises the error of \<open>getAstClass\<close>: no tree comes back.
\<close>

theorem base_class_node_does_not_round_trip:
  "convert 20 [(mk (TokenBase\<lparr> tkind := ''word'', token := [''foo''] \<rparr>), ''foo'')] =
     Inr (Ast KAstNode (VStr ''foo'') [] None []) \<and>
   toString (Ast KAstNode (VStr ''foo'') [] None []) = Some ''foo'' \<and>
   toJSON (Ast KAstNode (VStr ''foo'') [] None []) =
     Inr (JObj [(''kind'', JStr ''AstNode''), (''value'', JStr ''foo''), (''childNodes'', JArr [])]) \<and>
   fromJSON baseAst
     (JObj [(''kind'', JStr ''AstNode''), (''value'', JStr ''foo''), (''childNodes'', JArr [])]) =
     Inl (Error ''No definition for AST class: AstNode'') \<and>
   map_of baseAst ''base'' = Some KAstNode \<and> kindName KAstNode = ''AstNode'' \<and>
   map_of baseAst ''AstNode'' = None \<and>
   list_all (\<lambda>(n, k). k = KAstNode \<or> kindName k = n) baseAst"
  by code_simp

end
